theory Spec2Isabelle
  imports Complex_Main
begin

section \<open>Water controller (core/water\_control.py)\<close>

text \<open>
  Python floats are idealised as real numbers. Every callback slot of the source
  (\<^verbatim>\<open>on_flow_stop: Optional[Callable]\<close> and its siblings) is a boolean field that says
  whether a handler is registered; the handlers registered by \<^verbatim>\<open>main.py\<close> on the water
  controller only write a log line, so an invocation is recorded in the ghost trace
  \<open>water_fired\<close> and has no other effect.
\<close>

datatype ValveState = VALVE_CLOSED | VALVE_OPEN | VALVE_PARTIAL

datatype FlowState = STOPPED | FLOWING | ADJUSTING

datatype water_callback = FlowStart real | FlowStop | TemperatureChange real

record WaterController =
  current_temperature :: real
  target_temperature :: real
  flow_rate :: real
  pressure :: real
  valve_state :: ValveState
  flow_state :: FlowState
  hot_valve_open :: bool
  cold_valve_open :: bool
  mixer_valve_position :: real
  max_temperature :: real
  min_temperature :: real
  on_flow_start :: bool
  on_flow_stop :: bool
  on_temperature_change :: bool
  water_fired :: "water_callback list"

text \<open>\<^verbatim>\<open>__init__\<close> followed by \<^verbatim>\<open>_load_settings\<close>; the three arguments are the configuration
  entries \<^verbatim>\<open>default_temperature\<close>, \<^verbatim>\<open>max_temperature\<close> and \<^verbatim>\<open>min_temperature\<close>.\<close>

definition WaterController_init :: "real \<Rightarrow> real \<Rightarrow> real \<Rightarrow> WaterController" where
  "WaterController_init default_temperature max_t min_t =
     \<lparr> current_temperature = 20, target_temperature = default_temperature,
       flow_rate = 0, pressure = 0, valve_state = VALVE_CLOSED, flow_state = STOPPED,
       hot_valve_open = False, cold_valve_open = False, mixer_valve_position = 0.5,
       max_temperature = max_t, min_temperature = min_t,
       on_flow_start = False, on_flow_stop = False, on_temperature_change = False,
       water_fired = [] \<rparr>"

definition fire_water :: "bool \<Rightarrow> water_callback \<Rightarrow> WaterController \<Rightarrow> WaterController" where
  "fire_water registered e w = (if registered then w\<lparr>water_fired := water_fired w @ [e]\<rparr> else w)"

definition open_valves :: "WaterController \<Rightarrow> WaterController" where
  "open_valves w = w\<lparr>hot_valve_open := True, cold_valve_open := True,
                     mixer_valve_position := 0.5, valve_state := VALVE_OPEN\<rparr>"

definition close_valves :: "WaterController \<Rightarrow> WaterController" where
  "close_valves w = w\<lparr>hot_valve_open := False, cold_valve_open := False,
                      mixer_valve_position := 0, valve_state := VALVE_CLOSED\<rparr>"

definition start_flow :: "real option \<Rightarrow> WaterController \<Rightarrow> WaterController" where
  "start_flow temperature w =
     (let w1 = (case temperature of
                  None \<Rightarrow> w
                | Some t \<Rightarrow> w\<lparr>target_temperature :=
                               max (min_temperature w) (min (max_temperature w) t)\<rparr>);
          w2 = open_valves w1;
          w3 = w2\<lparr>flow_state := ADJUSTING, flow_rate := 8\<rparr>
      in fire_water (on_flow_start w3) (FlowStart (target_temperature w3)) w3)"

definition stop_flow :: "WaterController \<Rightarrow> WaterController" where
  "stop_flow w =
     (let w1 = close_valves w;
          w2 = w1\<lparr>flow_state := STOPPED, flow_rate := 0\<rparr>
      in fire_water (on_flow_stop w2) FlowStop w2)"

definition set_temperature :: "real \<Rightarrow> WaterController \<Rightarrow> WaterController" where
  "set_temperature temperature w =
     (let t = max (min_temperature w) (min (max_temperature w) temperature)
      in if \<bar>t - target_temperature w\<bar> > 0.5 then w\<lparr>target_temperature := t\<rparr> else w)"

definition set_flow_rate :: "real \<Rightarrow> WaterController \<Rightarrow> WaterController" where
  "set_flow_rate r w = w\<lparr>flow_rate := max 0 (min 15 r)\<rparr>"

definition water_read_sensors :: "WaterController \<Rightarrow> WaterController" where
  "water_read_sensors w =
     (if flow_state w \<noteq> STOPPED then
        (let temp_diff = target_temperature w - current_temperature w
         in if \<bar>temp_diff\<bar> > 0.1 then
              (let w1 = w\<lparr>current_temperature := current_temperature w + temp_diff * 0.1\<rparr>
               in fire_water (on_temperature_change w1)
                    (TemperatureChange (current_temperature w1)) w1)
            else w)
      else w)"

definition adjust_temperature :: "WaterController \<Rightarrow> WaterController" where
  "adjust_temperature w =
     (let temp_diff = target_temperature w - current_temperature w
      in if \<bar>temp_diff\<bar> > 0.5 then
           (if temp_diff > 0
            then w\<lparr>mixer_valve_position := min 1 (mixer_valve_position w + 0.01)\<rparr>
            else w\<lparr>mixer_valve_position := max 0 (mixer_valve_position w - 0.01)\<rparr>)
         else w)"

text \<open>The third check of \<^verbatim>\<open>_check_safety\<close> only logs a warning; its guard is
  \<open>low_flow_detected\<close>.\<close>

definition low_flow_detected :: "WaterController \<Rightarrow> bool" where
  "low_flow_detected w = (flow_state w = FLOWING \<and> flow_rate w < 0.5)"

definition check_safety :: "WaterController \<Rightarrow> WaterController" where
  "check_safety w =
     (let w1 = (if current_temperature w > max_temperature w then stop_flow w else w);
          w2 = (if pressure w1 > 5 then stop_flow w1 else w1)
      in w2)"

definition water_emergency_stop :: "WaterController \<Rightarrow> WaterController" where
  "water_emergency_stop w =
     (let w1 = w\<lparr>hot_valve_open := False, cold_valve_open := False,
                  mixer_valve_position := 0, valve_state := VALVE_CLOSED,
                  flow_state := STOPPED, flow_rate := 0\<rparr>
      in fire_water (on_flow_stop w1) FlowStop w1)"

text \<open>One iteration of \<^verbatim>\<open>_control_loop\<close> (the body between two sleeps).\<close>

definition water_control_loop :: "WaterController \<Rightarrow> WaterController" where
  "water_control_loop w =
     (let w1 = water_read_sensors w;
          w2 = (if flow_state w1 = FLOWING then adjust_temperature w1 else w1)
      in check_safety w2)"

text \<open>\<^verbatim>\<open>_setup_event_handlers\<close> of \<^verbatim>\<open>main.py\<close>, water controller part.\<close>

definition setup_water_handlers :: "WaterController \<Rightarrow> WaterController" where
  "setup_water_handlers w =
     w\<lparr>on_flow_start := True, on_flow_stop := True, on_temperature_change := True\<rparr>"

text \<open>The operations other components invoke on the water controller, and the states they
  reach from the initial one.\<close>

datatype water_op =
    OpStartFlow "real option"
  | OpStopFlow
  | OpSetTemperature real
  | OpSetFlowRate real
  | OpControlLoop
  | OpEmergencyStop
  | OpSetupHandlers

fun water_step :: "WaterController \<Rightarrow> water_op \<Rightarrow> WaterController" where
  "water_step w (OpStartFlow t) = start_flow t w"
| "water_step w OpStopFlow = stop_flow w"
| "water_step w (OpSetTemperature t) = set_temperature t w"
| "water_step w (OpSetFlowRate r) = set_flow_rate r w"
| "water_step w OpControlLoop = water_control_loop w"
| "water_step w OpEmergencyStop = water_emergency_stop w"
| "water_step w OpSetupHandlers = setup_water_handlers w"

definition water_run :: "water_op list \<Rightarrow> WaterController \<Rightarrow> WaterController" where
  "water_run ops w = foldl water_step w ops"

text \<open>The measured temperature after \<open>n\<close> sensor reads, and the number of times
  \<^verbatim>\<open>on_flow_stop\<close> has been invoked.\<close>

definition temperature_after :: "nat \<Rightarrow> WaterController \<Rightarrow> real" where
  "temperature_after n w = current_temperature ((water_read_sensors ^^ n) w)"

definition flow_stop_count :: "WaterController \<Rightarrow> nat" where
  "flow_stop_count w = length (filter (\<lambda>e. e = FlowStop) (water_fired w))"

section \<open>Safety monitor (core/safety\_monitor.py)\<close>

datatype SafetyState = SAFE | WARNING | DANGER | EMERGENCY

datatype SensorState = OPEN | CLOSED | UNKNOWN

text \<open>
  The door timer is an asyncio task that runs \<^verbatim>\<open>_door_timeout_handler\<close>: it sleeps
  \<^verbatim>\<open>door_timeout\<close> seconds from its creation and then looks at the door. The model keeps the
  creation time and whether the task is still sleeping, has run to its end, or was cancelled.
\<close>

datatype task_status = Pending | Finished | Cancelled

record DoorTask =
  created_at :: real
  status :: task_status

definition cancel :: "DoorTask \<Rightarrow> DoorTask" where
  "cancel t = (if status t = Pending then t\<lparr>status := Cancelled\<rparr> else t)"

definition task_done :: "DoorTask \<Rightarrow> bool" where
  "task_done t = (status t \<noteq> Pending)"

datatype safety_callback = DoorOpen | DoorClose | LeakDetected | EmergencyStop | SafetyWarning string

text \<open>
  \<open>last_door_close_time\<close> is a ghost field, the counterpart of the source's
  \<^verbatim>\<open>last_door_open_time\<close>: it is written where the sensor read sees the door go to closed and
  is read by no operation. \<open>safety_fired\<close> is the ghost trace of callback invocations.
\<close>

record SafetyMonitor =
  safety_state :: SafetyState
  door_state :: SensorState
  leak_detected :: bool
  emergency_stop_active :: bool
  door_timer :: "DoorTask option"
  shower_start_time :: "real option"
  last_door_open_time :: "real option"
  last_door_close_time :: "real option"
  door_sensor_active :: bool
  leak_sensor_active :: bool
  emergency_button_pressed :: bool
  max_shower_duration :: real
  door_timeout :: real
  on_door_open :: bool
  on_door_close :: bool
  on_leak_detected :: bool
  on_emergency_stop :: bool
  on_safety_warning :: bool
  safety_fired :: "safety_callback list"

text \<open>\<^verbatim>\<open>__init__\<close> followed by \<^verbatim>\<open>_load_safety_settings\<close>; the arguments are the configuration
  entries \<^verbatim>\<open>door_timeout\<close> and \<^verbatim>\<open>max_shower_duration\<close>.\<close>

definition SafetyMonitor_init :: "real \<Rightarrow> real \<Rightarrow> SafetyMonitor" where
  "SafetyMonitor_init timeout max_duration =
     \<lparr> safety_state = SAFE, door_state = UNKNOWN, leak_detected = False,
       emergency_stop_active = False, door_timer = None, shower_start_time = None,
       last_door_open_time = None, last_door_close_time = None,
       door_sensor_active = False, leak_sensor_active = False,
       emergency_button_pressed = False,
       max_shower_duration = max_duration, door_timeout = timeout,
       on_door_open = False, on_door_close = False, on_leak_detected = False,
       on_emergency_stop = False, on_safety_warning = False, safety_fired = [] \<rparr>"

text \<open>Python's truth value of \<^verbatim>\<open>self.shower_start_time\<close>: \<^verbatim>\<open>None\<close> and \<^verbatim>\<open>0.0\<close> are false.\<close>

definition session_running :: "SafetyMonitor \<Rightarrow> bool" where
  "session_running m = (case shower_start_time m of None \<Rightarrow> False | Some t \<Rightarrow> t \<noteq> 0)"

definition start_door_timer :: "real \<Rightarrow> SafetyMonitor \<Rightarrow> SafetyMonitor" where
  "start_door_timer now m =
     (let m1 = m\<lparr>door_timer := map_option cancel (door_timer m)\<rparr>
      in m1\<lparr>door_timer := Some \<lparr>created_at = now, status = Pending\<rparr>\<rparr>)"

definition reset_door_timer :: "real \<Rightarrow> SafetyMonitor \<Rightarrow> SafetyMonitor" where
  "reset_door_timer now m =
     start_door_timer now (m\<lparr>door_timer := map_option cancel (door_timer m)\<rparr>)"

definition start_shower_session :: "real \<Rightarrow> SafetyMonitor \<Rightarrow> SafetyMonitor" where
  "start_shower_session now m =
     start_door_timer now (m\<lparr>shower_start_time := Some now, safety_state := SAFE\<rparr>)"

definition stop_shower_session :: "SafetyMonitor \<Rightarrow> SafetyMonitor" where
  "stop_shower_session m =
     (let m1 = (case door_timer m of None \<Rightarrow> m | Some t \<Rightarrow> m\<lparr>door_timer := None\<rparr>)
      in m1\<lparr>shower_start_time := None, safety_state := SAFE\<rparr>)"

definition update_safety_state :: "SafetyMonitor \<Rightarrow> SafetyMonitor" where
  "update_safety_state m =
     (if emergency_stop_active m then m\<lparr>safety_state := EMERGENCY\<rparr>
      else if leak_detected m then m\<lparr>safety_state := DANGER\<rparr>
      else if door_state m = CLOSED \<and> session_running m then
        (if (case door_timer m of None \<Rightarrow> False | Some t \<Rightarrow> task_done t)
         then m\<lparr>safety_state := WARNING\<rparr>
         else m\<lparr>safety_state := SAFE\<rparr>)
      else m\<lparr>safety_state := SAFE\<rparr>)"

definition fire_safety :: "bool \<Rightarrow> safety_callback \<Rightarrow> SafetyMonitor \<Rightarrow> SafetyMonitor" where
  "fire_safety registered e m =
     (if registered then m\<lparr>safety_fired := safety_fired m @ [e]\<rparr> else m)"

section \<open>Session coordinator (main.py)\<close>

text \<open>
  The audio manager and the mobile API are external collaborators: the calls the coordinator
  makes to them are recorded. \<open>clock\<close> is the value \<^verbatim>\<open>time.time()\<close> returns. The callbacks of
  the safety monitor are the coordinator's handlers (\<^verbatim>\<open>_setup_event_handlers\<close> is the only
  place that assigns them), so the operations of the monitor that invoke a callback are
  functions on the whole system.
\<close>

datatype audio_call = StartPlayback string | StopPlayback

datatype error = PlaybackFailed

record SmartShowerOS =
  water_controller :: WaterController
  safety_monitor :: SafetyMonitor
  shower_active :: bool
  emergency_stop :: bool
  audio_calls :: "audio_call list"
  notifications :: "string list"
  clock :: real

definition stop_shower :: "SmartShowerOS \<Rightarrow> SmartShowerOS" where
  "stop_shower s =
     (let s1 = s\<lparr>water_controller := stop_flow (water_controller s)\<rparr>;
          s2 = s1\<lparr>audio_calls := audio_calls s1 @ [StopPlayback]\<rparr>;
          s3 = s2\<lparr>safety_monitor := stop_shower_session (safety_monitor s2)\<rparr>
      in s3\<lparr>shower_active := False\<rparr>)"

text \<open>\<open>playback_ok\<close> says whether the external \<^verbatim>\<open>start_playback\<close> returns normally; when it
  raises, \<^verbatim>\<open>start_shower\<close> re-raises and the steps already taken stay in effect.\<close>

definition start_shower ::
  "real \<Rightarrow> string option \<Rightarrow> bool \<Rightarrow> SmartShowerOS \<Rightarrow> error option \<times> SmartShowerOS" where
  "start_shower temperature audio_source playback_ok s =
     (let s1 = s\<lparr>water_controller := start_flow (Some temperature) (water_controller s)\<rparr>;
          after_audio =
            (case audio_source of
               None \<Rightarrow> Some s1
             | Some src \<Rightarrow>
                 if src = [] then Some s1
                 else if playback_ok
                 then Some (s1\<lparr>audio_calls := audio_calls s1 @ [StartPlayback src]\<rparr>)
                 else None)
      in case after_audio of
           None \<Rightarrow> (Some PlaybackFailed, s1)
         | Some s2 \<Rightarrow>
             (let s3 = s2\<lparr>safety_monitor := start_shower_session (clock s2) (safety_monitor s2)\<rparr>
              in (None, s3\<lparr>shower_active := True\<rparr>)))"

definition main_on_door_open :: "SmartShowerOS \<Rightarrow> SmartShowerOS" where
  "main_on_door_open s = s\<lparr>safety_monitor := reset_door_timer (clock s) (safety_monitor s)\<rparr>"

definition main_on_door_close :: "SmartShowerOS \<Rightarrow> SmartShowerOS" where
  "main_on_door_close s = s\<lparr>safety_monitor := start_door_timer (clock s) (safety_monitor s)\<rparr>"

definition send_emergency_notification :: "string \<Rightarrow> SmartShowerOS \<Rightarrow> SmartShowerOS" where
  "send_emergency_notification msg s = s\<lparr>notifications := notifications s @ [msg]\<rparr>"

definition main_on_leak_detected :: "SmartShowerOS \<Rightarrow> SmartShowerOS" where
  "main_on_leak_detected s = send_emergency_notification ''Water leak detected!'' (stop_shower s)"

definition main_on_emergency_stop :: "SmartShowerOS \<Rightarrow> SmartShowerOS" where
  "main_on_emergency_stop s =
     send_emergency_notification ''Emergency stop activated!''
       (stop_shower (s\<lparr>emergency_stop := True\<rparr>))"

section \<open>Safety monitor operations that invoke callbacks\<close>

definition record_fired :: "safety_callback \<Rightarrow> SmartShowerOS \<Rightarrow> SmartShowerOS" where
  "record_fired e s = s\<lparr>safety_monitor := fire_safety True e (safety_monitor s)\<rparr>"

definition safety_emergency_stop :: "SmartShowerOS \<Rightarrow> SmartShowerOS" where
  "safety_emergency_stop s =
     (let s1 = s\<lparr>safety_monitor :=
                  (safety_monitor s)\<lparr>emergency_stop_active := True, safety_state := EMERGENCY\<rparr>\<rparr>
      in if on_emergency_stop (safety_monitor s1)
         then main_on_emergency_stop (record_fired EmergencyStop s1)
         else s1)"

text \<open>\<^verbatim>\<open>_read_sensors\<close> in its three parts: door, leak, emergency button.\<close>

definition read_door_sensor :: "SmartShowerOS \<Rightarrow> SmartShowerOS" where
  "read_door_sensor s =
     (let m = safety_monitor s;
          old_door_state = door_state m;
          m1 = m\<lparr>door_state := (if door_sensor_active m then OPEN else CLOSED)\<rparr>;
          s1 = s\<lparr>safety_monitor := m1\<rparr>
      in if old_door_state \<noteq> door_state m1 then
           (if door_state m1 = OPEN then
              (let s2 = s1\<lparr>safety_monitor := m1\<lparr>last_door_open_time := Some (clock s)\<rparr>\<rparr>
               in if on_door_open m1 then main_on_door_open (record_fired DoorOpen s2) else s2)
            else
              (let s2 = s1\<lparr>safety_monitor := m1\<lparr>last_door_close_time := Some (clock s)\<rparr>\<rparr>
               in if on_door_close m1 then main_on_door_close (record_fired DoorClose s2) else s2))
         else s1)"

definition read_leak_sensor :: "SmartShowerOS \<Rightarrow> SmartShowerOS" where
  "read_leak_sensor s =
     (let m = safety_monitor s
      in if leak_sensor_active m \<and> \<not> leak_detected m then
           (let s1 = s\<lparr>safety_monitor := m\<lparr>leak_detected := True\<rparr>\<rparr>
            in if on_leak_detected m then main_on_leak_detected (record_fired LeakDetected s1)
               else s1)
         else s)"

definition read_emergency_button :: "SmartShowerOS \<Rightarrow> SmartShowerOS" where
  "read_emergency_button s =
     (if emergency_button_pressed (safety_monitor s) then safety_emergency_stop s else s)"

definition safety_read_sensors :: "SmartShowerOS \<Rightarrow> SmartShowerOS" where
  "safety_read_sensors s = read_emergency_button (read_leak_sensor (read_door_sensor s))"

definition duration_exceeded :: "SmartShowerOS \<Rightarrow> bool" where
  "duration_exceeded s =
     (case shower_start_time (safety_monitor s) of
        None \<Rightarrow> False
      | Some t \<Rightarrow> t \<noteq> 0 \<and> clock s - t > max_shower_duration (safety_monitor s))"

text \<open>\<^verbatim>\<open>_check_safety_conditions\<close> in its three parts: shower duration, leaks, door state.\<close>

definition check_shower_duration :: "SmartShowerOS \<Rightarrow> SmartShowerOS" where
  "check_shower_duration s = (if duration_exceeded s then safety_emergency_stop s else s)"

definition check_leaks :: "SmartShowerOS \<Rightarrow> SmartShowerOS" where
  "check_leaks s =
     (let m = safety_monitor s
      in if leak_detected m
         then s\<lparr>safety_monitor :=
                  fire_safety (on_safety_warning m) (SafetyWarning ''Water leak detected'')
                    (m\<lparr>safety_state := DANGER\<rparr>)\<rparr>
         else s)"

definition check_door_state :: "SmartShowerOS \<Rightarrow> SmartShowerOS" where
  "check_door_state s =
     (let m = safety_monitor s
      in if door_state m = CLOSED \<and> session_running m then s
         else if door_state m = OPEN \<and> session_running m
         then s\<lparr>safety_monitor := reset_door_timer (clock s) m\<rparr>
         else s)"

definition check_safety_conditions :: "SmartShowerOS \<Rightarrow> SmartShowerOS" where
  "check_safety_conditions s = check_door_state (check_leaks (check_shower_duration s))"

text \<open>One iteration of the safety monitor's \<^verbatim>\<open>_control_loop\<close>.\<close>

definition safety_control_loop :: "SmartShowerOS \<Rightarrow> SmartShowerOS" where
  "safety_control_loop s =
     (let s1 = safety_read_sensors s;
          s2 = check_safety_conditions s1
      in s2\<lparr>safety_monitor := update_safety_state (safety_monitor s2)\<rparr>)"

text \<open>
  The door timer task waking up: \<^verbatim>\<open>asyncio.sleep(self.door_timeout)\<close> returns no earlier than
  \<^verbatim>\<open>door_timeout\<close> seconds after the task was created, and only in a task that was not
  cancelled. The body after the sleep is \<open>door_timeout_handler\<close>.
\<close>

definition door_timer_due :: "SmartShowerOS \<Rightarrow> bool" where
  "door_timer_due s =
     (case door_timer (safety_monitor s) of
        None \<Rightarrow> False
      | Some t \<Rightarrow> status t = Pending \<and> created_at t + door_timeout (safety_monitor s) \<le> clock s)"

definition finish_door_timer :: "SafetyMonitor \<Rightarrow> SafetyMonitor" where
  "finish_door_timer m = m\<lparr>door_timer := map_option (\<lambda>t. t\<lparr>status := Finished\<rparr>) (door_timer m)\<rparr>"

definition door_timeout_handler :: "SmartShowerOS \<Rightarrow> SmartShowerOS" where
  "door_timeout_handler s =
     (if door_timer_due s then
        (let s1 = (if door_state (safety_monitor s) = CLOSED then safety_emergency_stop s else s)
         in s1\<lparr>safety_monitor := finish_door_timer (safety_monitor s1)\<rparr>)
      else s)"

section \<open>The running system\<close>

text \<open>\<^verbatim>\<open>_setup_event_handlers\<close>, safety monitor part (\<^verbatim>\<open>on_safety_warning\<close> is assigned nowhere).\<close>

definition setup_safety_handlers :: "SafetyMonitor \<Rightarrow> SafetyMonitor" where
  "setup_safety_handlers m =
     m\<lparr>on_door_open := True, on_door_close := True, on_leak_detected := True,
       on_emergency_stop := True\<rparr>"

text \<open>The system after \<^verbatim>\<open>initialize\<close>: the configuration gives the default, maximum and minimum
  temperature, the door timeout and the maximum session duration; \<open>t0\<close> is the clock.\<close>

definition initialize :: "real \<Rightarrow> real \<Rightarrow> real \<Rightarrow> real \<Rightarrow> real \<Rightarrow> real \<Rightarrow> SmartShowerOS" where
  "initialize default_temperature max_t min_t timeout max_duration t0 =
     \<lparr> water_controller =
         setup_water_handlers (WaterController_init default_temperature max_t min_t),
       safety_monitor = setup_safety_handlers (SafetyMonitor_init timeout max_duration),
       shower_active = False, emergency_stop = False, audio_calls = [], notifications = [],
       clock = t0 \<rparr>"

text \<open>What can happen to the running system: time passes (the clock does not run backwards),
  a control loop runs one iteration, the door timer wakes up, a client starts or stops the
  shower, sets the temperature or presses the emergency stop of the web interface, and the
  (simulated) sensors change.\<close>

datatype system_op =
    Advance real
  | SafetyControlLoop
  | WaterControlLoop
  | DoorTimeout
  | StartShower real "string option" bool
  | StopShower
  | ApiEmergencyStop
  | ApiSetTemperature real
  | SetDoorSensor bool
  | SetLeakSensor bool
  | SetEmergencyButton bool

fun system_step :: "SmartShowerOS \<Rightarrow> system_op \<Rightarrow> SmartShowerOS" where
  "system_step s (Advance d) = (if 0 \<le> d then s\<lparr>clock := clock s + d\<rparr> else s)"
| "system_step s SafetyControlLoop = safety_control_loop s"
| "system_step s WaterControlLoop =
     s\<lparr>water_controller := water_control_loop (water_controller s)\<rparr>"
| "system_step s DoorTimeout = door_timeout_handler s"
| "system_step s (StartShower t a ok) = snd (start_shower t a ok s)"
| "system_step s StopShower = stop_shower s"
| "system_step s ApiEmergencyStop = safety_emergency_stop s"
| "system_step s (ApiSetTemperature t) =
     s\<lparr>water_controller := set_temperature t (water_controller s)\<rparr>"
| "system_step s (SetDoorSensor b) =
     s\<lparr>safety_monitor := (safety_monitor s)\<lparr>door_sensor_active := b\<rparr>\<rparr>"
| "system_step s (SetLeakSensor b) =
     s\<lparr>safety_monitor := (safety_monitor s)\<lparr>leak_sensor_active := b\<rparr>\<rparr>"
| "system_step s (SetEmergencyButton b) =
     s\<lparr>safety_monitor := (safety_monitor s)\<lparr>emergency_button_pressed := b\<rparr>\<rparr>"

definition system_run :: "system_op list \<Rightarrow> SmartShowerOS \<Rightarrow> SmartShowerOS" where
  "system_run ops s = foldl system_step s ops"

definition emergency_stop_count :: "SmartShowerOS \<Rightarrow> nat" where
  "emergency_stop_count s =
     length (filter (\<lambda>e. e = EmergencyStop) (safety_fired (safety_monitor s)))"

text \<open>
  The relation between the door timer and the most recent closure of the door that the monitor
  has seen, with the coordinator's door handlers registered: the closure is not in the future,
  a door in state CLOSED has a recorded closure, and while the door is CLOSED the door timer,
  if there is one, was created at that closure or later.
\<close>

definition door_timer_invariant :: "SmartShowerOS \<Rightarrow> bool" where
  "door_timer_invariant s =
     (on_door_open (safety_monitor s) \<and> on_door_close (safety_monitor s) \<and>
      (case last_door_close_time (safety_monitor s) of
         None \<Rightarrow> door_state (safety_monitor s) \<noteq> CLOSED
       | Some c \<Rightarrow>
           c \<le> clock s \<and>
           (door_state (safety_monitor s) = CLOSED \<longrightarrow>
              (case door_timer (safety_monitor s) of
                 None \<Rightarrow> True
               | Some t \<Rightarrow> c \<le> created_at t))))"

section \<open>Properties of the water controller\<close>

subsection \<open>Stopping\<close>

lemma stop_flow_is_emergency_stop: "stop_flow w = water_emergency_stop w"
  by (simp add: stop_flow_def water_emergency_stop_def close_valves_def Let_def)

lemma stop_flow_fields:
  "valve_state (stop_flow w) = VALVE_CLOSED"
  "flow_state (stop_flow w) = STOPPED"
  "flow_rate (stop_flow w) = 0"
  "mixer_valve_position (stop_flow w) = 0"
  "\<not> hot_valve_open (stop_flow w)"
  "\<not> cold_valve_open (stop_flow w)"
  "on_flow_stop (stop_flow w) = on_flow_stop w"
  "pressure (stop_flow w) = pressure w"
  "water_fired (stop_flow w) = water_fired w @ (if on_flow_stop w then [FlowStop] else [])"
  by (simp_all add: stop_flow_def close_valves_def fire_water_def Let_def)

lemma stop_flow_repeated:
  "(stop_flow ^^ Suc n) w =
     (stop_flow w)\<lparr>water_fired :=
        water_fired w @ (if on_flow_stop w then replicate (Suc n) FlowStop else [])\<rparr>"
proof (induction n)
  case 0
  show ?case by (simp add: stop_flow_fields)
next
  case (Suc n)
  have "(stop_flow ^^ Suc (Suc n)) w = stop_flow ((stop_flow ^^ Suc n) w)" by simp
  also have "\<dots> = stop_flow ((stop_flow w)\<lparr>water_fired :=
        water_fired w @ (if on_flow_stop w then replicate (Suc n) FlowStop else [])\<rparr>)"
    using Suc by simp
  also have "\<dots> = (stop_flow w)\<lparr>water_fired :=
        water_fired w @ (if on_flow_stop w then replicate (Suc (Suc n)) FlowStop else [])\<rparr>"
    by (simp add: stop_flow_def close_valves_def fire_water_def Let_def replicate_append_same)
  finally show ?case .
qed

text \<open>
  Claim C3, as amended. \<^verbatim>\<open>stop_flow\<close> and \<^verbatim>\<open>emergency_stop\<close> are the same state transformer,
  and calling it \<open>n + 1\<close> times in a row leaves the controller in the state the first call
  produced: the valve is CLOSED and the flow STOPPED after the first call and after every later
  one. The callback \<^verbatim>\<open>on_flow_stop\<close>, when registered, is invoked once per call, so \<open>n + 1\<close>
  calls invoke it \<open>n + 1\<close> times, not once.
\<close>

theorem stop_is_idempotent_on_state_only:
  "stop_flow w = water_emergency_stop w
   \<and> valve_state ((stop_flow ^^ Suc n) w) = VALVE_CLOSED
   \<and> flow_state ((stop_flow ^^ Suc n) w) = STOPPED
   \<and> (stop_flow ^^ Suc n) w = (stop_flow w)\<lparr>water_fired := water_fired ((stop_flow ^^ Suc n) w)\<rparr>
   \<and> flow_stop_count ((stop_flow ^^ Suc n) w) =
       flow_stop_count w + (if on_flow_stop w then Suc n else 0)"
proof -
  have r: "(stop_flow ^^ Suc n) w =
     (stop_flow w)\<lparr>water_fired :=
        water_fired w @ (if on_flow_stop w then replicate (Suc n) FlowStop else [])\<rparr>"
    by (rule stop_flow_repeated)
  have 1: "valve_state ((stop_flow ^^ Suc n) w) = VALVE_CLOSED"
    by (simp only: r) (simp add: stop_flow_fields)
  have 2: "flow_state ((stop_flow ^^ Suc n) w) = STOPPED"
    by (simp only: r) (simp add: stop_flow_fields)
  have 3: "(stop_flow ^^ Suc n) w = (stop_flow w)\<lparr>water_fired := water_fired ((stop_flow ^^ Suc n) w)\<rparr>"
    by (simp only: r) simp
  have 4: "flow_stop_count ((stop_flow ^^ Suc n) w) =
       flow_stop_count w + (if on_flow_stop w then Suc n else 0)"
    by (simp only: r) (simp add: flow_stop_count_def)
  from stop_flow_is_emergency_stop 1 2 3 4 show ?thesis by blast
qed


theorem stop_is_idempotent_on_state_only_witness:
  "flow_stop_count ((stop_flow ^^ Suc 2)
      (start_flow (Some 38) (setup_water_handlers (WaterController_init 38 45 20)))) = 3
   \<and> valve_state ((stop_flow ^^ Suc 2)
      (start_flow (Some 38) (setup_water_handlers (WaterController_init 38 45 20)))) = VALVE_CLOSED"
  using stop_is_idempotent_on_state_only
    [of "start_flow (Some 38) (setup_water_handlers (WaterController_init 38 45 20))" 2]
  by (simp add: flow_stop_count_def start_flow_def setup_water_handlers_def
      WaterController_init_def open_valves_def fire_water_def Let_def)

theorem stop_fires_on_every_call_counterexample:
  "valve_state (start_flow (Some 38) (setup_water_handlers (WaterController_init 38 45 20)))
     \<noteq> VALVE_CLOSED
   \<and> flow_stop_count (start_flow (Some 38) (setup_water_handlers (WaterController_init 38 45 20))) = 0
   \<and> flow_stop_count (stop_flow (stop_flow
        (start_flow (Some 38) (setup_water_handlers (WaterController_init 38 45 20))))) = 2
   \<and> flow_stop_count (water_emergency_stop (water_emergency_stop
        (start_flow (Some 38) (setup_water_handlers (WaterController_init 38 45 20))))) = 2"
  by (simp add: flow_stop_count_def stop_flow_def water_emergency_stop_def start_flow_def
      setup_water_handlers_def WaterController_init_def open_valves_def close_valves_def
      fire_water_def Let_def)

subsection \<open>Over-temperature\<close>

lemma check_safety_over_temperature:
  assumes "max_temperature w < current_temperature w"
  shows "check_safety w =
           (if 5 < pressure w then water_emergency_stop (water_emergency_stop w)
            else water_emergency_stop w)"
  using assms
  by (simp add: check_safety_def Let_def stop_flow_fields flip: stop_flow_is_emergency_stop)

lemma read_sensors_keeps:
  "max_temperature (water_read_sensors w) = max_temperature w"
  "pressure (water_read_sensors w) = pressure w"
  "flow_state (water_read_sensors w) = flow_state w"
  "target_temperature (water_read_sensors w) = target_temperature w"
  by (simp_all add: water_read_sensors_def fire_water_def Let_def)

lemma adjust_temperature_keeps:
  "max_temperature (adjust_temperature w) = max_temperature w"
  "pressure (adjust_temperature w) = pressure w"
  "flow_state (adjust_temperature w) = flow_state w"
  "current_temperature (adjust_temperature w) = current_temperature w"
  "target_temperature (adjust_temperature w) = target_temperature w"
  by (simp_all add: adjust_temperature_def Let_def)

text \<open>
  Claim C2. When the sensor read of a control-loop iteration leaves the measured temperature
  above \<^verbatim>\<open>max_temperature\<close>, the same iteration ends with the emergency stop of the flow
  controller applied to the state the read produced (twice when the pressure limit is exceeded
  as well): all valves closed, mixer at 0, flow STOPPED at rate 0, and \<^verbatim>\<open>on_flow_stop\<close>
  invoked. The source reaches this through \<^verbatim>\<open>stop_flow\<close>, which is the same state transformer
  as \<^verbatim>\<open>emergency_stop\<close>.
\<close>

theorem over_temperature_stops_flow:
  assumes "max_temperature w < current_temperature (water_read_sensors w)"
  shows "water_control_loop w =
           (if 5 < pressure w
            then water_emergency_stop (water_emergency_stop
                   (if flow_state w = FLOWING then adjust_temperature (water_read_sensors w)
                    else water_read_sensors w))
            else water_emergency_stop
                   (if flow_state w = FLOWING then adjust_temperature (water_read_sensors w)
                    else water_read_sensors w))
       \<and> valve_state (water_control_loop w) = VALVE_CLOSED
       \<and> flow_state (water_control_loop w) = STOPPED
       \<and> flow_rate (water_control_loop w) = 0
       \<and> mixer_valve_position (water_control_loop w) = 0
       \<and> \<not> hot_valve_open (water_control_loop w)
       \<and> \<not> cold_valve_open (water_control_loop w)
       \<and> (on_flow_stop w \<longrightarrow>
            flow_stop_count w < flow_stop_count (water_control_loop w))"
proof -
  define v where "v = (if flow_state w = FLOWING
                       then adjust_temperature (water_read_sensors w) else water_read_sensors w)"
  have loop: "water_control_loop w = check_safety v"
    by (simp add: water_control_loop_def v_def Let_def read_sensors_keeps)
  have hot: "max_temperature v < current_temperature v"
    using assms by (simp add: v_def adjust_temperature_keeps read_sensors_keeps)
  have pv: "pressure v = pressure w"
    by (simp add: v_def adjust_temperature_keeps read_sensors_keeps)
  have cs: "check_safety v =
           (if 5 < pressure w then water_emergency_stop (water_emergency_stop v)
            else water_emergency_stop v)"
    using check_safety_over_temperature[OF hot] pv by simp
  have eq: "water_control_loop w =
           (if 5 < pressure w then water_emergency_stop (water_emergency_stop v)
            else water_emergency_stop v)"
    by (simp add: loop cs)
  have fields: "valve_state (water_control_loop w) = VALVE_CLOSED"
    "flow_state (water_control_loop w) = STOPPED"
    "flow_rate (water_control_loop w) = 0"
    "mixer_valve_position (water_control_loop w) = 0"
    "\<not> hot_valve_open (water_control_loop w)"
    "\<not> cold_valve_open (water_control_loop w)"
    by (simp_all only: eq) (simp_all add: stop_flow_fields flip: stop_flow_is_emergency_stop)
  have ov: "on_flow_stop v = on_flow_stop w"
    by (simp add: v_def adjust_temperature_def water_read_sensors_def fire_water_def Let_def)
  have cv: "flow_stop_count v = flow_stop_count w"
    by (simp add: v_def adjust_temperature_def water_read_sensors_def fire_water_def Let_def
        flow_stop_count_def)
  have count: "on_flow_stop w \<longrightarrow> flow_stop_count w < flow_stop_count (water_control_loop w)"
    using ov cv
    by (simp add: eq flow_stop_count_def stop_flow_fields flip: stop_flow_is_emergency_stop)
  from eq fields count show ?thesis unfolding v_def by blast
qed

theorem over_temperature_stops_flow_witness:
  "max_temperature (start_flow None (setup_water_handlers (WaterController_init 38 21 20)))
     < current_temperature (water_read_sensors
         (start_flow None (setup_water_handlers (WaterController_init 38 21 20))))
   \<and> valve_state (water_control_loop
         (start_flow None (setup_water_handlers (WaterController_init 38 21 20)))) = VALVE_CLOSED
   \<and> flow_stop_count (water_control_loop
         (start_flow None (setup_water_handlers (WaterController_init 38 21 20)))) = 1"
proof -
  have h: "max_temperature (start_flow None (setup_water_handlers (WaterController_init 38 21 20)))
     < current_temperature (water_read_sensors
         (start_flow None (setup_water_handlers (WaterController_init 38 21 20))))"
    by (simp add: water_read_sensors_def start_flow_def setup_water_handlers_def
        WaterController_init_def open_valves_def fire_water_def Let_def)
  have c: "flow_stop_count (water_control_loop
         (start_flow None (setup_water_handlers (WaterController_init 38 21 20)))) = 1"
    by (simp add: water_control_loop_def check_safety_def stop_flow_def close_valves_def
        water_read_sensors_def start_flow_def setup_water_handlers_def flow_stop_count_def
        WaterController_init_def open_valves_def fire_water_def Let_def)
  from h c over_temperature_stops_flow [OF h] show ?thesis by blast
qed

subsection \<open>Target temperature\<close>

text \<open>
  Claim C9, as amended. \<^verbatim>\<open>set_temperature(t)\<close> changes nothing but the target. It clamps \<open>t\<close>
  to \<open>max min_temperature (min max_temperature t)\<close> and records the clamped value only when it
  differs from the current target by more than 0.5; otherwise the target stays as it was. The
  target after the call is therefore within 0.5 of the clamped request, and it lies within
  the bounds whenever the bounds are ordered and the target lay within them before.
\<close>

theorem set_temperature_clamps_with_deadband:
  "set_temperature t w =
     w\<lparr>target_temperature := target_temperature (set_temperature t w)\<rparr>
   \<and> target_temperature (set_temperature t w) =
       (if 0.5 < \<bar>max (min_temperature w) (min (max_temperature w) t) - target_temperature w\<bar>
        then max (min_temperature w) (min (max_temperature w) t)
        else target_temperature w)
   \<and> \<bar>target_temperature (set_temperature t w)
        - max (min_temperature w) (min (max_temperature w) t)\<bar> \<le> 0.5
   \<and> (min_temperature w \<le> max_temperature w
        \<and> min_temperature w \<le> target_temperature w
        \<and> target_temperature w \<le> max_temperature w
       \<longrightarrow> min_temperature w \<le> target_temperature (set_temperature t w)
           \<and> target_temperature (set_temperature t w) \<le> max_temperature w)"
  by (auto simp add: set_temperature_def Let_def abs_minus_commute)

theorem set_temperature_clamps_with_deadband_witness:
  "target_temperature (set_temperature 100 (WaterController_init 38 45 20)) = 45
   \<and> target_temperature (set_temperature (- 7) (WaterController_init 38 45 20)) = 20
   \<and> target_temperature (set_temperature 38.3 (WaterController_init 38 45 20)) = 38"
  using set_temperature_clamps_with_deadband [of 100 "WaterController_init 38 45 20"]
    set_temperature_clamps_with_deadband [of "- 7" "WaterController_init 38 45 20"]
    set_temperature_clamps_with_deadband [of "38.3" "WaterController_init 38 45 20"]
  by (simp add: WaterController_init_def)

theorem set_temperature_ignores_small_change_counterexample:
  "target_temperature (set_temperature 38.3 (WaterController_init 38 45 20))
     \<noteq> max 20 (min 45 38.3)"
  by (simp add: set_temperature_def WaterController_init_def)

subsection \<open>The FLOWING state\<close>

lemma water_step_not_flowing:
  "flow_state w \<noteq> FLOWING \<Longrightarrow> flow_state (water_step w op) \<noteq> FLOWING"
  by (cases op)
    (simp_all add: start_flow_def stop_flow_fields set_temperature_def set_flow_rate_def
      water_control_loop_def check_safety_def read_sensors_keeps fire_water_def
      setup_water_handlers_def Let_def flip: stop_flow_is_emergency_stop)

lemma water_run_not_flowing:
  "flow_state w \<noteq> FLOWING \<Longrightarrow> flow_state (water_run ops w) \<noteq> FLOWING"
  unfolding water_run_def
  by (induction ops arbitrary: w) (simp_all add: water_step_not_flowing)

text \<open>
  Claim C10. No sequence of operations takes the water controller from its initial state to
  \<^verbatim>\<open>flow_state == FLOWING\<close>: \<^verbatim>\<open>start_flow\<close> sets ADJUSTING, \<^verbatim>\<open>stop_flow\<close> and \<^verbatim>\<open>emergency_stop\<close>
  set STOPPED, and nothing else assigns the field. So in every reachable state the low-flow
  check is not taken and the control loop skips the mixer adjustment: an iteration is the
  sensor read followed by the safety check.
\<close>

theorem flowing_is_unreachable:
  "flow_state (water_run ops (WaterController_init d mx mn)) \<noteq> FLOWING
   \<and> \<not> low_flow_detected (water_run ops (WaterController_init d mx mn))
   \<and> water_control_loop (water_run ops (WaterController_init d mx mn)) =
       check_safety (water_read_sensors (water_run ops (WaterController_init d mx mn)))
   \<and> flow_state (start_flow t w) = ADJUSTING
   \<and> flow_state (stop_flow w) = STOPPED
   \<and> flow_state (water_emergency_stop w) = STOPPED"
proof -
  have "flow_state (WaterController_init d mx mn) \<noteq> FLOWING"
    by (simp add: WaterController_init_def)
  from water_run_not_flowing [OF this, of ops]
  have nf: "flow_state (water_run ops (WaterController_init d mx mn)) \<noteq> FLOWING" .
  have a: "flow_state (start_flow t w) = ADJUSTING"
    by (simp add: start_flow_def fire_water_def Let_def)
  have b: "flow_state (water_emergency_stop w) = STOPPED"
    by (simp add: stop_flow_fields flip: stop_flow_is_emergency_stop)
  from nf a b show ?thesis
    by (simp add: low_flow_detected_def water_control_loop_def read_sensors_keeps
        stop_flow_fields Let_def)
qed

theorem flowing_is_unreachable_witness:
  "flow_state (water_run [OpSetupHandlers, OpStartFlow (Some 38), OpControlLoop, OpControlLoop]
                 (WaterController_init 38 45 20)) = ADJUSTING"
proof -
  have "flow_state (water_run [OpSetupHandlers, OpStartFlow (Some 38), OpControlLoop, OpControlLoop]
                 (WaterController_init 38 45 20)) \<noteq> STOPPED"
    by (simp add: water_run_def water_control_loop_def check_safety_def water_read_sensors_def
        start_flow_def setup_water_handlers_def WaterController_init_def open_valves_def
        fire_water_def Let_def)
  with flowing_is_unreachable
    [of "[OpSetupHandlers, OpStartFlow (Some 38), OpControlLoop, OpControlLoop]" 38 45 20]
  show ?thesis by (cases "flow_state (water_run [OpSetupHandlers, OpStartFlow (Some 38), OpControlLoop, OpControlLoop]
                 (WaterController_init 38 45 20))") simp_all
qed


subsection \<open>Temperature convergence\<close>

lemma read_sensors_iterated_keeps:
  "flow_state ((water_read_sensors ^^ n) w) = flow_state w"
  "target_temperature ((water_read_sensors ^^ n) w) = target_temperature w"
  "max_temperature ((water_read_sensors ^^ n) w) = max_temperature w"
  "pressure ((water_read_sensors ^^ n) w) = pressure w"
  by (induction n) (simp_all add: read_sensors_keeps)

lemma read_sensors_current:
  "flow_state w \<noteq> STOPPED \<Longrightarrow>
   current_temperature (water_read_sensors w) =
     (if 0.1 < \<bar>target_temperature w - current_temperature w\<bar>
      then current_temperature w + (target_temperature w - current_temperature w) * 0.1
      else current_temperature w)"
  by (simp add: water_read_sensors_def fire_water_def Let_def)

lemma temperature_after_step:
  assumes "flow_state w \<noteq> STOPPED"
  shows "temperature_after (Suc n) w =
     (if 0.1 < \<bar>target_temperature w - temperature_after n w\<bar>
      then temperature_after n w + (target_temperature w - temperature_after n w) * 0.1
      else temperature_after n w)"
proof -
  have "flow_state ((water_read_sensors ^^ n) w) \<noteq> STOPPED"
    using assms by (simp add: read_sensors_iterated_keeps)
  from read_sensors_current [OF this] show ?thesis
    by (simp add: temperature_after_def read_sensors_iterated_keeps)
qed

lemma error_step:
  assumes "flow_state w \<noteq> STOPPED"
  shows "target_temperature w - temperature_after (Suc n) w =
     (if 0.1 < \<bar>target_temperature w - temperature_after n w\<bar>
      then 0.9 * (target_temperature w - temperature_after n w)
      else target_temperature w - temperature_after n w)"
  using temperature_after_step [OF assms, of n] by argo

lemma heating_stays_below:
  assumes "flow_state w \<noteq> STOPPED" "current_temperature w < target_temperature w"
  shows "temperature_after n w < target_temperature w"
proof (induction n)
  case 0
  show ?case using assms by (simp add: temperature_after_def)
next
  case (Suc n)
  then show ?case using error_step [OF assms(1), of n] by (auto split: if_splits)
qed

lemma cooling_stays_above:
  assumes "flow_state w \<noteq> STOPPED" "target_temperature w < current_temperature w"
  shows "target_temperature w < temperature_after n w"
proof (induction n)
  case 0
  show ?case using assms by (simp add: temperature_after_def)
next
  case (Suc n)
  then show ?case using error_step [OF assms(1), of n] by (auto split: if_splits)
qed

lemma error_closed_form:
  assumes "flow_state w \<noteq> STOPPED"
  shows "\<bar>target_temperature w - temperature_after n w\<bar> \<le> 0.1
       \<or> target_temperature w - temperature_after n w =
           0.9 ^ n * (target_temperature w - current_temperature w)"
proof (induction n)
  case 0
  show ?case by (simp add: temperature_after_def)
next
  case (Suc n)
  then show ?case using error_step [OF assms, of n] by (auto split: if_splits)
qed

lemma deadband_is_absorbing:
  assumes "flow_state w \<noteq> STOPPED"
    and "\<bar>target_temperature w - temperature_after n w\<bar> \<le> 0.1"
  shows "temperature_after (n + k) w = temperature_after n w"
proof (induction k)
  case 0
  show ?case by simp
next
  case (Suc k)
  then show ?case using temperature_after_step [OF assms(1), of "n + k"] assms(2) by simp
qed

lemma deadband_is_reached:
  assumes "flow_state w \<noteq> STOPPED"
  shows "\<exists>N. \<forall>n\<ge>N. \<bar>target_temperature w - temperature_after n w\<bar> \<le> 0.1
                    \<and> temperature_after n w = temperature_after N w"
proof -
  define e where "e = target_temperature w - current_temperature w"
  have "\<exists>N. (0.9::real) ^ N * \<bar>e\<bar> < 0.1"
  proof (cases "e = 0")
    case True
    then show ?thesis by simp
  next
    case False
    then have "0 < 0.1 / \<bar>e\<bar>" by simp
    from real_arch_pow_inv [OF this, of "0.9"]
    obtain N where "(0.9::real) ^ N < 0.1 / \<bar>e\<bar>" by auto
    then have "(0.9::real) ^ N * \<bar>e\<bar> < 0.1" using False by (simp add: pos_less_divide_eq)
    then show ?thesis by blast
  qed
  then obtain N where N: "(0.9::real) ^ N * \<bar>e\<bar> < 0.1" by blast
  have inside: "\<bar>target_temperature w - temperature_after N w\<bar> \<le> 0.1"
    using error_closed_form [OF assms, of N] N by (auto simp: abs_mult e_def)
  have "\<bar>target_temperature w - temperature_after n w\<bar> \<le> 0.1
          \<and> temperature_after n w = temperature_after N w" if "N \<le> n" for n
  proof -
    from that obtain k where "n = N + k" using le_Suc_ex by blast
    with deadband_is_absorbing [OF assms inside, of k] inside show ?thesis by simp
  qed
  then show ?thesis by blast
qed

lemma temperature_after_between:
  assumes "flow_state w \<noteq> STOPPED"
  shows "min (current_temperature w) (target_temperature w) \<le> temperature_after n w
       \<and> temperature_after n w \<le> max (current_temperature w) (target_temperature w)"
proof (induction n)
  case 0
  show ?case by (simp add: temperature_after_def)
next
  case (Suc n)
  then show ?case using temperature_after_step [OF assms, of n] by argo
qed

lemma control_loop_without_stop:
  assumes "pressure w \<le> 5" "current_temperature (water_read_sensors w) \<le> max_temperature w"
  shows "current_temperature (water_control_loop w) = current_temperature (water_read_sensors w)"
    and "target_temperature (water_control_loop w) = target_temperature w"
    and "flow_state (water_control_loop w) = flow_state w"
    and "max_temperature (water_control_loop w) = max_temperature w"
    and "pressure (water_control_loop w) = pressure w"
  using assms
  by (simp_all add: water_control_loop_def check_safety_def Let_def read_sensors_keeps
      adjust_temperature_keeps)

lemma read_sensors_depends_on:
  assumes "current_temperature a = current_temperature b"
    "target_temperature a = target_temperature b" "flow_state a = flow_state b"
  shows "current_temperature (water_read_sensors a) = current_temperature (water_read_sensors b)"
  using assms by (simp add: water_read_sensors_def fire_water_def Let_def)

lemma control_loop_follows_sensor_reads:
  assumes run: "flow_state w \<noteq> STOPPED"
    and ok: "pressure w \<le> 5" "current_temperature w \<le> max_temperature w"
      "target_temperature w \<le> max_temperature w"
  shows "current_temperature ((water_control_loop ^^ n) w) = temperature_after n w
       \<and> target_temperature ((water_control_loop ^^ n) w) = target_temperature w
       \<and> flow_state ((water_control_loop ^^ n) w) = flow_state w
       \<and> max_temperature ((water_control_loop ^^ n) w) = max_temperature w
       \<and> pressure ((water_control_loop ^^ n) w) = pressure w"
proof (induction n)
  case 0
  show ?case by (simp add: temperature_after_def)
next
  case (Suc n)
  let ?a = "(water_control_loop ^^ n) w" and ?b = "(water_read_sensors ^^ n) w"
  have same: "current_temperature (water_read_sensors ?a) = temperature_after (Suc n) w"
    using read_sensors_depends_on [of ?a ?b] Suc
    by (simp add: temperature_after_def read_sensors_iterated_keeps)
  have "temperature_after (Suc n) w \<le> max_temperature w"
    using temperature_after_between [OF run, of "Suc n"] ok by (auto simp: max_def split: if_splits)
  then have le: "current_temperature (water_read_sensors ?a) \<le> max_temperature ?a"
    using same Suc by simp
  have p: "pressure ?a \<le> 5" using Suc ok by simp
  from control_loop_without_stop [OF p le] same Suc show ?case by simp
qed

text \<open>
  Claim C8, as amended. With a constant target \<open>T\<close> and the flow not STOPPED, a sensor read
  that finds the measured temperature more than 0.1 away from \<open>T\<close> moves it toward \<open>T\<close> by
  one tenth of the error (the error shrinks by the factor 0.9); a read that finds it within 0.1
  of \<open>T\<close> leaves it unchanged. Hence the sequence of measured temperatures is monotonic but
  not strictly so: when heating it never decreases and stays below \<open>T\<close>, when cooling it never
  increases and stays above \<open>T\<close>; after finitely many reads it is within 0.1 of \<open>T\<close> and
  constant from then on. While no safety limit is exceeded (pressure at most 5, temperature
  and target at most \<^verbatim>\<open>max_temperature\<close>), the iterations of the control loop produce the same
  temperatures.
\<close>

theorem temperature_moves_toward_target_until_deadband:
  assumes "flow_state w \<noteq> STOPPED"
  shows "(0.1 < \<bar>target_temperature w - temperature_after n w\<bar> \<longrightarrow>
            target_temperature w - temperature_after (Suc n) w =
              0.9 * (target_temperature w - temperature_after n w))
       \<and> (\<bar>target_temperature w - temperature_after n w\<bar> \<le> 0.1 \<longrightarrow>
            temperature_after (Suc n) w = temperature_after n w)
       \<and> (current_temperature w < target_temperature w \<longrightarrow>
            temperature_after n w \<le> temperature_after (Suc n) w
            \<and> temperature_after (Suc n) w < target_temperature w)
       \<and> (target_temperature w < current_temperature w \<longrightarrow>
            temperature_after (Suc n) w \<le> temperature_after n w
            \<and> target_temperature w < temperature_after (Suc n) w)
       \<and> (\<exists>N. \<forall>k\<ge>N. \<bar>target_temperature w - temperature_after k w\<bar> \<le> 0.1
                     \<and> temperature_after k w = temperature_after N w)
       \<and> (pressure w \<le> 5 \<and> current_temperature w \<le> max_temperature w
            \<and> target_temperature w \<le> max_temperature w \<longrightarrow>
            current_temperature ((water_control_loop ^^ n) w) = temperature_after n w)"
proof -
  have 1: "0.1 < \<bar>target_temperature w - temperature_after n w\<bar> \<longrightarrow>
            target_temperature w - temperature_after (Suc n) w =
              0.9 * (target_temperature w - temperature_after n w)"
    using error_step [OF assms, of n] by simp
  have 2: "\<bar>target_temperature w - temperature_after n w\<bar> \<le> 0.1 \<longrightarrow>
            temperature_after (Suc n) w = temperature_after n w"
    using temperature_after_step [OF assms, of n] by simp
  have 3: "current_temperature w < target_temperature w \<longrightarrow>
            temperature_after n w \<le> temperature_after (Suc n) w
            \<and> temperature_after (Suc n) w < target_temperature w"
  proof
    assume h: "current_temperature w < target_temperature w"
    from heating_stays_below [OF assms h, of n] heating_stays_below [OF assms h, of "Suc n"]
      temperature_after_step [OF assms, of n]
    show "temperature_after n w \<le> temperature_after (Suc n) w
            \<and> temperature_after (Suc n) w < target_temperature w"
      by (auto split: if_splits)
  qed
  have 4: "target_temperature w < current_temperature w \<longrightarrow>
            temperature_after (Suc n) w \<le> temperature_after n w
            \<and> target_temperature w < temperature_after (Suc n) w"
  proof
    assume h: "target_temperature w < current_temperature w"
    from cooling_stays_above [OF assms h, of n] cooling_stays_above [OF assms h, of "Suc n"]
      temperature_after_step [OF assms, of n]
    show "temperature_after (Suc n) w \<le> temperature_after n w
            \<and> target_temperature w < temperature_after (Suc n) w"
      by (auto split: if_splits)
  qed
  have 5: "pressure w \<le> 5 \<and> current_temperature w \<le> max_temperature w
            \<and> target_temperature w \<le> max_temperature w \<longrightarrow>
            current_temperature ((water_control_loop ^^ n) w) = temperature_after n w"
    using control_loop_follows_sensor_reads [OF assms, of n] by blast
  from 1 2 3 4 5 deadband_is_reached [OF assms] show ?thesis by blast
qed

theorem temperature_moves_toward_target_until_deadband_witness:
  "flow_state (start_flow (Some 38) (WaterController_init 38 45 20)) \<noteq> STOPPED
   \<and> temperature_after (Suc 0) (start_flow (Some 38) (WaterController_init 38 45 20)) = 21.8
   \<and> current_temperature (water_control_loop (start_flow (Some 38) (WaterController_init 38 45 20)))
       = 21.8
   \<and> flow_state (set_temperature 20 (water_read_sensors
         (start_flow (Some 38) (WaterController_init 38 45 20)))) \<noteq> STOPPED
   \<and> temperature_after (Suc 0) (set_temperature 20 (water_read_sensors
         (start_flow (Some 38) (WaterController_init 38 45 20)))) = 21.62
   \<and> flow_state (start_flow (Some 20.05) (WaterController_init 38 45 20)) \<noteq> STOPPED
   \<and> temperature_after (Suc 0) (start_flow (Some 20.05) (WaterController_init 38 45 20)) = 20"
proof -
  let ?w = "start_flow (Some 38) (WaterController_init 38 45 20)"
  let ?v = "set_temperature 20 (water_read_sensors ?w)"
  let ?u = "start_flow (Some 20.05) (WaterController_init 38 45 20)"
  have w: "flow_state ?w \<noteq> STOPPED" "current_temperature ?w = 20" "target_temperature ?w = 38"
    "pressure ?w = 0" "max_temperature ?w = 45"
    by (simp_all add: start_flow_def WaterController_init_def open_valves_def fire_water_def Let_def)
  have v: "flow_state ?v \<noteq> STOPPED" "current_temperature ?v = 21.8" "target_temperature ?v = 20"
    using w
    by (simp_all add: set_temperature_def water_read_sensors_def fire_water_def Let_def
        start_flow_def WaterController_init_def open_valves_def)
  have u: "flow_state ?u \<noteq> STOPPED" "current_temperature ?u = 20" "target_temperature ?u = 20.05"
    by (simp_all add: start_flow_def WaterController_init_def open_valves_def fire_water_def Let_def)
  have w0: "temperature_after 0 ?w = 20" using w by (simp add: temperature_after_def)
  have v0: "temperature_after 0 ?v = 21.8" using v by (simp add: temperature_after_def)
  have u0: "temperature_after 0 ?u = 20" using u by (simp add: temperature_after_def)
  have ru: "temperature_after (Suc 0) ?u = 20"
    using temperature_moves_toward_target_until_deadband [OF u(1), of 0] u u0 by simp
  from temperature_moves_toward_target_until_deadband [OF w(1), of 0]
    temperature_moves_toward_target_until_deadband [OF w(1), of "Suc 0"]
    temperature_moves_toward_target_until_deadband [OF v(1), of 0]
  have "temperature_after (Suc 0) ?w = 21.8
     \<and> current_temperature (water_control_loop ?w) = 21.8
     \<and> temperature_after (Suc 0) ?v = 21.62"
    using w v w0 v0 by simp
  with w(1) v(1) u(1) ru show ?thesis by blast
qed

theorem temperature_stalls_in_deadband_counterexample:
  "flow_state (start_flow (Some 20.05) (WaterController_init 38 45 20)) \<noteq> STOPPED
   \<and> target_temperature (start_flow (Some 20.05) (WaterController_init 38 45 20))
       - current_temperature (start_flow (Some 20.05) (WaterController_init 38 45 20)) \<noteq> 0
   \<and> current_temperature (water_read_sensors
        (start_flow (Some 20.05) (WaterController_init 38 45 20)))
       = current_temperature (start_flow (Some 20.05) (WaterController_init 38 45 20))
   \<and> current_temperature (water_control_loop
        (start_flow (Some 20.05) (WaterController_init 38 45 20)))
       = current_temperature (start_flow (Some 20.05) (WaterController_init 38 45 20))"
  by (simp add: water_control_loop_def check_safety_def water_read_sensors_def start_flow_def
      WaterController_init_def open_valves_def fire_water_def Let_def)

section \<open>Properties of the safety monitor and the coordinator\<close>

subsection \<open>The monitor's part of each operation\<close>

lemma stop_shower_session_eq:
  "stop_shower_session m = m\<lparr>door_timer := None, shower_start_time := None, safety_state := SAFE\<rparr>"
  by (cases "door_timer m") (simp_all add: stop_shower_session_def Let_def)

lemma start_door_timer_eq:
  "start_door_timer now m = m\<lparr>door_timer := Some \<lparr>created_at = now, status = Pending\<rparr>\<rparr>"
  by (simp add: start_door_timer_def Let_def)

lemma reset_door_timer_eq:
  "reset_door_timer now m = m\<lparr>door_timer := Some \<lparr>created_at = now, status = Pending\<rparr>\<rparr>"
  by (simp add: reset_door_timer_def start_door_timer_eq)

lemma start_shower_session_eq:
  "start_shower_session now m =
     m\<lparr>shower_start_time := Some now, safety_state := SAFE,
       door_timer := Some \<lparr>created_at = now, status = Pending\<rparr>\<rparr>"
  by (simp add: start_shower_session_def start_door_timer_eq)

lemmas monitor_eqs =
  stop_shower_session_eq start_door_timer_eq reset_door_timer_eq start_shower_session_eq
  fire_safety_def

lemmas coordinator_defs =
  stop_shower_def main_on_door_open_def main_on_door_close_def send_emergency_notification_def
  main_on_leak_detected_def main_on_emergency_stop_def record_fired_def

lemma safety_emergency_stop_monitor:
  "safety_monitor (safety_emergency_stop s) =
     (if on_emergency_stop (safety_monitor s)
      then (safety_monitor s)\<lparr>emergency_stop_active := True, safety_state := SAFE,
             safety_fired := safety_fired (safety_monitor s) @ [EmergencyStop],
             door_timer := None, shower_start_time := None\<rparr>
      else (safety_monitor s)\<lparr>emergency_stop_active := True, safety_state := EMERGENCY\<rparr>)"
  by (simp add: safety_emergency_stop_def coordinator_defs monitor_eqs Let_def)

lemma safety_emergency_stop_clock: "clock (safety_emergency_stop s) = clock s"
  by (simp add: safety_emergency_stop_def coordinator_defs Let_def)

lemma read_door_sensor_monitor:
  "safety_monitor (read_door_sensor s) =
     (if door_sensor_active (safety_monitor s) then
        (if door_state (safety_monitor s) = OPEN then safety_monitor s
         else if on_door_open (safety_monitor s)
         then (safety_monitor s)\<lparr>door_state := OPEN, last_door_open_time := Some (clock s),
                safety_fired := safety_fired (safety_monitor s) @ [DoorOpen],
                door_timer := Some \<lparr>created_at = clock s, status = Pending\<rparr>\<rparr>
         else (safety_monitor s)\<lparr>door_state := OPEN, last_door_open_time := Some (clock s)\<rparr>)
      else
        (if door_state (safety_monitor s) = CLOSED then safety_monitor s
         else if on_door_close (safety_monitor s)
         then (safety_monitor s)\<lparr>door_state := CLOSED, last_door_close_time := Some (clock s),
                safety_fired := safety_fired (safety_monitor s) @ [DoorClose],
                door_timer := Some \<lparr>created_at = clock s, status = Pending\<rparr>\<rparr>
         else (safety_monitor s)\<lparr>door_state := CLOSED, last_door_close_time := Some (clock s)\<rparr>))"
  by (simp add: read_door_sensor_def coordinator_defs monitor_eqs Let_def)

lemma read_door_sensor_clock: "clock (read_door_sensor s) = clock s"
  by (simp add: read_door_sensor_def coordinator_defs Let_def)

lemma read_leak_sensor_monitor:
  "safety_monitor (read_leak_sensor s) =
     (if leak_sensor_active (safety_monitor s) \<and> \<not> leak_detected (safety_monitor s) then
        (if on_leak_detected (safety_monitor s)
         then (safety_monitor s)\<lparr>leak_detected := True,
                safety_fired := safety_fired (safety_monitor s) @ [LeakDetected],
                door_timer := None, shower_start_time := None, safety_state := SAFE\<rparr>
         else (safety_monitor s)\<lparr>leak_detected := True\<rparr>)
      else safety_monitor s)"
  by (simp add: read_leak_sensor_def coordinator_defs monitor_eqs Let_def)

lemma read_leak_sensor_clock: "clock (read_leak_sensor s) = clock s"
  by (simp add: read_leak_sensor_def coordinator_defs Let_def)

lemma read_emergency_button_monitor:
  "safety_monitor (read_emergency_button s) =
     (if emergency_button_pressed (safety_monitor s)
      then safety_monitor (safety_emergency_stop s) else safety_monitor s)"
  by (simp add: read_emergency_button_def)

lemma read_emergency_button_clock: "clock (read_emergency_button s) = clock s"
  by (simp add: read_emergency_button_def safety_emergency_stop_clock)

lemma safety_read_sensors_clock: "clock (safety_read_sensors s) = clock s"
  by (simp add: safety_read_sensors_def read_emergency_button_clock read_leak_sensor_clock
      read_door_sensor_clock)

lemma check_shower_duration_monitor:
  "safety_monitor (check_shower_duration s) =
     (if duration_exceeded s then safety_monitor (safety_emergency_stop s) else safety_monitor s)"
  by (simp add: check_shower_duration_def)

lemma check_leaks_monitor:
  "safety_monitor (check_leaks s) =
     (if leak_detected (safety_monitor s)
      then (if on_safety_warning (safety_monitor s)
            then (safety_monitor s)\<lparr>safety_state := DANGER,
                   safety_fired := safety_fired (safety_monitor s) @
                     [SafetyWarning ''Water leak detected'']\<rparr>
            else (safety_monitor s)\<lparr>safety_state := DANGER\<rparr>)
      else safety_monitor s)"
  by (simp add: check_leaks_def fire_safety_def Let_def)

lemma check_door_state_monitor:
  "safety_monitor (check_door_state s) =
     (if door_state (safety_monitor s) = OPEN \<and> session_running (safety_monitor s)
      then (safety_monitor s)\<lparr>door_timer := Some \<lparr>created_at = clock s, status = Pending\<rparr>\<rparr>
      else safety_monitor s)"
  by (simp add: check_door_state_def reset_door_timer_eq Let_def)

lemma check_safety_conditions_clock: "clock (check_safety_conditions s) = clock s"
  by (simp add: check_safety_conditions_def check_door_state_def check_leaks_def
      check_shower_duration_def safety_emergency_stop_clock Let_def)

lemma safety_control_loop_monitor:
  "safety_monitor (safety_control_loop s) =
     update_safety_state (safety_monitor (check_safety_conditions (safety_read_sensors s)))"
  by (simp add: safety_control_loop_def Let_def)

lemma safety_control_loop_clock: "clock (safety_control_loop s) = clock s"
  by (simp add: safety_control_loop_def Let_def check_safety_conditions_clock
      safety_read_sensors_clock)


subsection \<open>What each stage of the safety control loop keeps\<close>

lemma safety_emergency_stop_effect:
  "emergency_stop_active (safety_monitor (safety_emergency_stop s))"
  "emergency_stop_count (safety_emergency_stop s) =
     emergency_stop_count s + (if on_emergency_stop (safety_monitor s) then 1 else 0)"
  "duration_exceeded (safety_emergency_stop s) =
     (duration_exceeded s \<and> \<not> on_emergency_stop (safety_monitor s))"
  "on_emergency_stop (safety_monitor (safety_emergency_stop s)) = on_emergency_stop (safety_monitor s)"
  "emergency_button_pressed (safety_monitor (safety_emergency_stop s)) =
     emergency_button_pressed (safety_monitor s)"
  "leak_detected (safety_monitor (safety_emergency_stop s)) = leak_detected (safety_monitor s)"
  by (simp_all add: safety_emergency_stop_monitor safety_emergency_stop_clock
      emergency_stop_count_def duration_exceeded_def split: option.splits)

lemma read_door_sensor_keeps:
  "emergency_stop_active (safety_monitor (read_door_sensor s)) = emergency_stop_active (safety_monitor s)"
  "emergency_stop_count (read_door_sensor s) = emergency_stop_count s"
  "duration_exceeded (read_door_sensor s) = duration_exceeded s"
  "on_emergency_stop (safety_monitor (read_door_sensor s)) = on_emergency_stop (safety_monitor s)"
  "on_leak_detected (safety_monitor (read_door_sensor s)) = on_leak_detected (safety_monitor s)"
  "emergency_button_pressed (safety_monitor (read_door_sensor s)) =
     emergency_button_pressed (safety_monitor s)"
  "leak_detected (safety_monitor (read_door_sensor s)) = leak_detected (safety_monitor s)"
  "leak_sensor_active (safety_monitor (read_door_sensor s)) = leak_sensor_active (safety_monitor s)"
  by (simp_all add: read_door_sensor_monitor read_door_sensor_clock
      emergency_stop_count_def duration_exceeded_def split: option.splits)

lemma read_leak_sensor_keeps:
  "emergency_stop_active (safety_monitor (read_leak_sensor s)) = emergency_stop_active (safety_monitor s)"
  "emergency_stop_count (read_leak_sensor s) = emergency_stop_count s"
  "on_emergency_stop (safety_monitor (read_leak_sensor s)) = on_emergency_stop (safety_monitor s)"
  "emergency_button_pressed (safety_monitor (read_leak_sensor s)) =
     emergency_button_pressed (safety_monitor s)"
  "leak_detected (safety_monitor (read_leak_sensor s)) =
     (leak_detected (safety_monitor s) \<or> leak_sensor_active (safety_monitor s))"
  "duration_exceeded (read_leak_sensor s) =
     (duration_exceeded s \<and>
      \<not> (leak_sensor_active (safety_monitor s) \<and> \<not> leak_detected (safety_monitor s)
         \<and> on_leak_detected (safety_monitor s)))"
  by (auto simp add: read_leak_sensor_monitor read_leak_sensor_clock
      emergency_stop_count_def duration_exceeded_def split: option.splits)

lemma read_emergency_button_effect:
  "emergency_stop_active (safety_monitor (read_emergency_button s)) =
     (emergency_stop_active (safety_monitor s) \<or> emergency_button_pressed (safety_monitor s))"
  "emergency_stop_count (read_emergency_button s) =
     emergency_stop_count s +
       (if emergency_button_pressed (safety_monitor s) \<and> on_emergency_stop (safety_monitor s)
        then 1 else 0)"
  "duration_exceeded (read_emergency_button s) =
     (duration_exceeded s \<and>
      \<not> (emergency_button_pressed (safety_monitor s) \<and> on_emergency_stop (safety_monitor s)))"
  "on_emergency_stop (safety_monitor (read_emergency_button s)) = on_emergency_stop (safety_monitor s)"
  "emergency_button_pressed (safety_monitor (read_emergency_button s)) =
     emergency_button_pressed (safety_monitor s)"
  "leak_detected (safety_monitor (read_emergency_button s)) = leak_detected (safety_monitor s)"
  by (auto simp add: read_emergency_button_def safety_emergency_stop_effect)

lemma safety_read_sensors_effect:
  "emergency_stop_active (safety_monitor (safety_read_sensors s)) =
     (emergency_stop_active (safety_monitor s) \<or> emergency_button_pressed (safety_monitor s))"
  "emergency_stop_count (safety_read_sensors s) =
     emergency_stop_count s +
       (if emergency_button_pressed (safety_monitor s) \<and> on_emergency_stop (safety_monitor s)
        then 1 else 0)"
  "duration_exceeded (safety_read_sensors s) =
     (duration_exceeded s
      \<and> \<not> (leak_sensor_active (safety_monitor s) \<and> \<not> leak_detected (safety_monitor s)
           \<and> on_leak_detected (safety_monitor s))
      \<and> \<not> (emergency_button_pressed (safety_monitor s) \<and> on_emergency_stop (safety_monitor s)))"
  "on_emergency_stop (safety_monitor (safety_read_sensors s)) = on_emergency_stop (safety_monitor s)"
  "emergency_button_pressed (safety_monitor (safety_read_sensors s)) =
     emergency_button_pressed (safety_monitor s)"
  "leak_detected (safety_monitor (safety_read_sensors s)) =
     (leak_detected (safety_monitor s) \<or> leak_sensor_active (safety_monitor s))"
  by (simp_all add: safety_read_sensors_def read_emergency_button_effect read_leak_sensor_keeps
      read_door_sensor_keeps)


lemma check_shower_duration_effect:
  "emergency_stop_active (safety_monitor (check_shower_duration s)) =
     (emergency_stop_active (safety_monitor s) \<or> duration_exceeded s)"
  "emergency_stop_count (check_shower_duration s) =
     emergency_stop_count s +
       (if duration_exceeded s \<and> on_emergency_stop (safety_monitor s) then 1 else 0)"
  "on_emergency_stop (safety_monitor (check_shower_duration s)) = on_emergency_stop (safety_monitor s)"
  "emergency_button_pressed (safety_monitor (check_shower_duration s)) =
     emergency_button_pressed (safety_monitor s)"
  "leak_detected (safety_monitor (check_shower_duration s)) = leak_detected (safety_monitor s)"
  by (simp_all add: check_shower_duration_def safety_emergency_stop_effect)

lemma check_leaks_keeps:
  "emergency_stop_active (safety_monitor (check_leaks s)) = emergency_stop_active (safety_monitor s)"
  "emergency_stop_count (check_leaks s) = emergency_stop_count s"
  "on_emergency_stop (safety_monitor (check_leaks s)) = on_emergency_stop (safety_monitor s)"
  "emergency_button_pressed (safety_monitor (check_leaks s)) =
     emergency_button_pressed (safety_monitor s)"
  "leak_detected (safety_monitor (check_leaks s)) = leak_detected (safety_monitor s)"
  by (simp_all add: check_leaks_monitor emergency_stop_count_def)

lemma check_door_state_keeps:
  "emergency_stop_active (safety_monitor (check_door_state s)) = emergency_stop_active (safety_monitor s)"
  "emergency_stop_count (check_door_state s) = emergency_stop_count s"
  "on_emergency_stop (safety_monitor (check_door_state s)) = on_emergency_stop (safety_monitor s)"
  "emergency_button_pressed (safety_monitor (check_door_state s)) =
     emergency_button_pressed (safety_monitor s)"
  "leak_detected (safety_monitor (check_door_state s)) = leak_detected (safety_monitor s)"
  by (simp_all add: check_door_state_monitor emergency_stop_count_def)

lemma check_safety_conditions_effect:
  "emergency_stop_active (safety_monitor (check_safety_conditions s)) =
     (emergency_stop_active (safety_monitor s) \<or> duration_exceeded s)"
  "emergency_stop_count (check_safety_conditions s) =
     emergency_stop_count s +
       (if duration_exceeded s \<and> on_emergency_stop (safety_monitor s) then 1 else 0)"
  "on_emergency_stop (safety_monitor (check_safety_conditions s)) = on_emergency_stop (safety_monitor s)"
  "emergency_button_pressed (safety_monitor (check_safety_conditions s)) =
     emergency_button_pressed (safety_monitor s)"
  "leak_detected (safety_monitor (check_safety_conditions s)) = leak_detected (safety_monitor s)"
  by (simp_all add: check_safety_conditions_def check_door_state_keeps check_leaks_keeps
      check_shower_duration_effect)

lemma update_safety_state_effect:
  "emergency_stop_active (update_safety_state m) = emergency_stop_active m"
  "safety_fired (update_safety_state m) = safety_fired m"
  "on_emergency_stop (update_safety_state m) = on_emergency_stop m"
  "emergency_button_pressed (update_safety_state m) = emergency_button_pressed m"
  "leak_detected (update_safety_state m) = leak_detected m"
  "emergency_stop_active m \<Longrightarrow> safety_state (update_safety_state m) = EMERGENCY"
  "\<not> emergency_stop_active m \<Longrightarrow> leak_detected m \<Longrightarrow> safety_state (update_safety_state m) = DANGER"
  by (simp_all add: update_safety_state_def)

lemma safety_control_loop_effect:
  "emergency_stop_active (safety_monitor (safety_control_loop s)) =
     (emergency_stop_active (safety_monitor s) \<or> emergency_button_pressed (safety_monitor s)
      \<or> (duration_exceeded s
          \<and> \<not> (leak_sensor_active (safety_monitor s) \<and> \<not> leak_detected (safety_monitor s)
               \<and> on_leak_detected (safety_monitor s))))"
  "emergency_stop_count (safety_control_loop s) =
     emergency_stop_count s +
       (if on_emergency_stop (safety_monitor s)
           \<and> (emergency_button_pressed (safety_monitor s)
              \<or> (duration_exceeded s
                  \<and> \<not> (leak_sensor_active (safety_monitor s) \<and> \<not> leak_detected (safety_monitor s)
                       \<and> on_leak_detected (safety_monitor s))))
        then 1 else 0)"
  "on_emergency_stop (safety_monitor (safety_control_loop s)) = on_emergency_stop (safety_monitor s)"
  "emergency_button_pressed (safety_monitor (safety_control_loop s)) =
     emergency_button_pressed (safety_monitor s)"
  "leak_detected (safety_monitor (safety_control_loop s)) =
     (leak_detected (safety_monitor s) \<or> leak_sensor_active (safety_monitor s))"
proof -
  have c: "emergency_stop_count (safety_control_loop s) =
      emergency_stop_count (check_safety_conditions (safety_read_sensors s))"
    by (simp add: emergency_stop_count_def safety_control_loop_monitor update_safety_state_effect)
  show "emergency_stop_active (safety_monitor (safety_control_loop s)) =
     (emergency_stop_active (safety_monitor s) \<or> emergency_button_pressed (safety_monitor s)
      \<or> (duration_exceeded s
          \<and> \<not> (leak_sensor_active (safety_monitor s) \<and> \<not> leak_detected (safety_monitor s)
               \<and> on_leak_detected (safety_monitor s))))"
    by (auto simp add: safety_control_loop_monitor update_safety_state_effect
        check_safety_conditions_effect safety_read_sensors_effect)
  show "emergency_stop_count (safety_control_loop s) =
     emergency_stop_count s +
       (if on_emergency_stop (safety_monitor s)
           \<and> (emergency_button_pressed (safety_monitor s)
              \<or> (duration_exceeded s
                  \<and> \<not> (leak_sensor_active (safety_monitor s) \<and> \<not> leak_detected (safety_monitor s)
                       \<and> on_leak_detected (safety_monitor s))))
        then 1 else 0)"
    by (auto simp add: c check_safety_conditions_effect safety_read_sensors_effect)
  show "on_emergency_stop (safety_monitor (safety_control_loop s)) = on_emergency_stop (safety_monitor s)"
    "emergency_button_pressed (safety_monitor (safety_control_loop s)) =
       emergency_button_pressed (safety_monitor s)"
    "leak_detected (safety_monitor (safety_control_loop s)) =
     (leak_detected (safety_monitor s) \<or> leak_sensor_active (safety_monitor s))"
    by (simp_all add: safety_control_loop_monitor update_safety_state_effect
        check_safety_conditions_effect safety_read_sensors_effect)
qed

lemma safety_control_loop_state:
  "emergency_stop_active (safety_monitor (safety_control_loop s)) \<Longrightarrow>
     safety_state (safety_monitor (safety_control_loop s)) = EMERGENCY"
  "\<not> emergency_stop_active (safety_monitor (safety_control_loop s)) \<Longrightarrow>
   leak_detected (safety_monitor (safety_control_loop s)) \<Longrightarrow>
     safety_state (safety_monitor (safety_control_loop s)) = DANGER"
  by (simp_all add: safety_control_loop_monitor update_safety_state_effect)

lemma door_timeout_handler_effect:
  assumes "door_timer_due s" "door_state (safety_monitor s) = CLOSED"
  shows "emergency_stop_active (safety_monitor (door_timeout_handler s))"
    and "emergency_stop_count (door_timeout_handler s) =
           emergency_stop_count s + (if on_emergency_stop (safety_monitor s) then 1 else 0)"
  using assms
  by (simp_all add: door_timeout_handler_def Let_def finish_door_timer_def
      safety_emergency_stop_monitor emergency_stop_count_def)

subsection \<open>Emergency triggers\<close>

text \<open>
  Claim C1, as amended. In an iteration of the safety control loop in which the emergency
  button is pressed, or the session duration is exceeded (and the session is not ended in that
  same iteration by the handler of a first leak detection), SafetyState becomes EMERGENCY and
  \<^verbatim>\<open>on_emergency_stop\<close>, when registered, is invoked once in that iteration. The invocation is
  level-triggered: a second iteration with the button still pressed invokes it a second time
  although the monitor has remained in EMERGENCY. The door timer expiring while the door is
  CLOSED sets \<^verbatim>\<open>emergency_stop_active\<close> and invokes \<^verbatim>\<open>on_emergency_stop\<close> once, and once
  \<^verbatim>\<open>emergency_stop_active\<close> is set every iteration ends in EMERGENCY. A leak without any of
  these triggers gives DANGER, not EMERGENCY, and does not invoke \<^verbatim>\<open>on_emergency_stop\<close>.
\<close>

theorem emergency_stop_fires_on_every_triggering_iteration:
  "(emergency_button_pressed (safety_monitor s)
      \<or> (duration_exceeded s
          \<and> \<not> (leak_sensor_active (safety_monitor s) \<and> \<not> leak_detected (safety_monitor s)
               \<and> on_leak_detected (safety_monitor s)))
     \<longrightarrow> safety_state (safety_monitor (safety_control_loop s)) = EMERGENCY
         \<and> emergency_stop_count (safety_control_loop s) =
             emergency_stop_count s + (if on_emergency_stop (safety_monitor s) then 1 else 0))
   \<and> (emergency_button_pressed (safety_monitor s) \<and> on_emergency_stop (safety_monitor s)
     \<longrightarrow> safety_state (safety_monitor (safety_control_loop (safety_control_loop s))) = EMERGENCY
         \<and> emergency_stop_count (safety_control_loop (safety_control_loop s)) =
             emergency_stop_count s + 2)
   \<and> (door_timer_due s \<and> door_state (safety_monitor s) = CLOSED
     \<longrightarrow> emergency_stop_active (safety_monitor (door_timeout_handler s))
         \<and> emergency_stop_count (door_timeout_handler s) =
             emergency_stop_count s + (if on_emergency_stop (safety_monitor s) then 1 else 0)
         \<and> safety_state (safety_monitor (safety_control_loop (door_timeout_handler s))) = EMERGENCY)
   \<and> (emergency_stop_active (safety_monitor s)
     \<longrightarrow> emergency_stop_active (safety_monitor (safety_control_loop s))
         \<and> safety_state (safety_monitor (safety_control_loop s)) = EMERGENCY)
   \<and> ((leak_sensor_active (safety_monitor s) \<or> leak_detected (safety_monitor s))
       \<and> \<not> emergency_button_pressed (safety_monitor s)
       \<and> \<not> emergency_stop_active (safety_monitor s) \<and> \<not> duration_exceeded s
     \<longrightarrow> safety_state (safety_monitor (safety_control_loop s)) = DANGER
         \<and> emergency_stop_count (safety_control_loop s) = emergency_stop_count s)"
proof -
  let ?m = "safety_monitor s"
  let ?trigger = "emergency_button_pressed ?m
      \<or> (duration_exceeded s
          \<and> \<not> (leak_sensor_active ?m \<and> \<not> leak_detected ?m \<and> on_leak_detected ?m))"
  have latch: "safety_state (safety_monitor (safety_control_loop u)) = EMERGENCY"
    if "emergency_stop_active (safety_monitor u) \<or> emergency_button_pressed (safety_monitor u)" for u
    using that safety_control_loop_state(1) [of u] by (auto simp add: safety_control_loop_effect(1))
  have 1: "?trigger \<longrightarrow> safety_state (safety_monitor (safety_control_loop s)) = EMERGENCY
         \<and> emergency_stop_count (safety_control_loop s) =
             emergency_stop_count s + (if on_emergency_stop ?m then 1 else 0)"
  proof
    assume t: ?trigger
    then have "emergency_stop_active (safety_monitor (safety_control_loop s))"
      by (simp add: safety_control_loop_effect(1))
    with t show "safety_state (safety_monitor (safety_control_loop s)) = EMERGENCY
         \<and> emergency_stop_count (safety_control_loop s) =
             emergency_stop_count s + (if on_emergency_stop ?m then 1 else 0)"
      using safety_control_loop_state(1) [of s] by (simp add: safety_control_loop_effect(2))
  qed
  have 2: "emergency_button_pressed ?m \<and> on_emergency_stop ?m
     \<longrightarrow> safety_state (safety_monitor (safety_control_loop (safety_control_loop s))) = EMERGENCY
         \<and> emergency_stop_count (safety_control_loop (safety_control_loop s)) =
             emergency_stop_count s + 2"
  proof
    assume b: "emergency_button_pressed ?m \<and> on_emergency_stop ?m"
    then have b': "emergency_button_pressed (safety_monitor (safety_control_loop s))"
      "on_emergency_stop (safety_monitor (safety_control_loop s))"
      by (simp_all add: safety_control_loop_effect)
    have c1: "emergency_stop_count (safety_control_loop s) = emergency_stop_count s + 1"
      using b by (simp add: safety_control_loop_effect(2))
    have c2: "emergency_stop_count (safety_control_loop (safety_control_loop s)) =
        emergency_stop_count (safety_control_loop s) + 1"
      using b' by (simp add: safety_control_loop_effect(2) [of "safety_control_loop s"])
    from latch [of "safety_control_loop s"] b' c1 c2
    show "safety_state (safety_monitor (safety_control_loop (safety_control_loop s))) = EMERGENCY
         \<and> emergency_stop_count (safety_control_loop (safety_control_loop s)) =
             emergency_stop_count s + 2"
      by simp
  qed
  have 3: "door_timer_due s \<and> door_state ?m = CLOSED
     \<longrightarrow> emergency_stop_active (safety_monitor (door_timeout_handler s))
         \<and> emergency_stop_count (door_timeout_handler s) =
             emergency_stop_count s + (if on_emergency_stop ?m then 1 else 0)
         \<and> safety_state (safety_monitor (safety_control_loop (door_timeout_handler s))) = EMERGENCY"
  proof
    assume d: "door_timer_due s \<and> door_state ?m = CLOSED"
    then have a: "emergency_stop_active (safety_monitor (door_timeout_handler s))"
      and c: "emergency_stop_count (door_timeout_handler s) =
             emergency_stop_count s + (if on_emergency_stop ?m then 1 else 0)"
      using door_timeout_handler_effect [of s] by simp_all
    from a c latch [of "door_timeout_handler s"]
    show "emergency_stop_active (safety_monitor (door_timeout_handler s))
         \<and> emergency_stop_count (door_timeout_handler s) =
             emergency_stop_count s + (if on_emergency_stop ?m then 1 else 0)
         \<and> safety_state (safety_monitor (safety_control_loop (door_timeout_handler s))) = EMERGENCY"
      by simp
  qed
  have 4: "emergency_stop_active ?m
     \<longrightarrow> emergency_stop_active (safety_monitor (safety_control_loop s))
         \<and> safety_state (safety_monitor (safety_control_loop s)) = EMERGENCY"
    using latch [of s] by (simp add: safety_control_loop_effect(1))
  have 5: "(leak_sensor_active ?m \<or> leak_detected ?m)
       \<and> \<not> emergency_button_pressed ?m \<and> \<not> emergency_stop_active ?m \<and> \<not> duration_exceeded s
     \<longrightarrow> safety_state (safety_monitor (safety_control_loop s)) = DANGER
         \<and> emergency_stop_count (safety_control_loop s) = emergency_stop_count s"
  proof
    assume l: "(leak_sensor_active ?m \<or> leak_detected ?m)
       \<and> \<not> emergency_button_pressed ?m \<and> \<not> emergency_stop_active ?m \<and> \<not> duration_exceeded s"
    then have "\<not> emergency_stop_active (safety_monitor (safety_control_loop s))"
      and "leak_detected (safety_monitor (safety_control_loop s))"
      by (auto simp add: safety_control_loop_effect)
    with l safety_control_loop_state(2) [of s]
    show "safety_state (safety_monitor (safety_control_loop s)) = DANGER
         \<and> emergency_stop_count (safety_control_loop s) = emergency_stop_count s"
      by (simp add: safety_control_loop_effect(2))
  qed
  from 1 2 3 4 5 show ?thesis by blast
qed


lemma initialize_monitor:
  "safety_monitor (initialize d mx mn timeout max_duration t0) =
     \<lparr> safety_state = SAFE, door_state = UNKNOWN, leak_detected = False,
       emergency_stop_active = False, door_timer = None, shower_start_time = None,
       last_door_open_time = None, last_door_close_time = None,
       door_sensor_active = False, leak_sensor_active = False,
       emergency_button_pressed = False,
       max_shower_duration = max_duration, door_timeout = timeout,
       on_door_open = True, on_door_close = True, on_leak_detected = True,
       on_emergency_stop = True, on_safety_warning = False, safety_fired = [] \<rparr>"
  "clock (initialize d mx mn timeout max_duration t0) = t0"
  by (simp_all add: initialize_def setup_safety_handlers_def SafetyMonitor_init_def)

theorem emergency_stop_fires_on_every_triggering_iteration_witness:
  "emergency_button_pressed (safety_monitor
      (system_step (initialize 38 45 20 600 1800 1000) (SetEmergencyButton True)))
   \<and> safety_state (safety_monitor (safety_control_loop
        (system_step (initialize 38 45 20 600 1800 1000) (SetEmergencyButton True)))) = EMERGENCY
   \<and> emergency_stop_count (safety_control_loop
        (system_step (initialize 38 45 20 600 1800 1000) (SetEmergencyButton True))) = 1
   \<and> emergency_stop_count (safety_control_loop (safety_control_loop
        (system_step (initialize 38 45 20 600 1800 1000) (SetEmergencyButton True)))) = 2
   \<and> duration_exceeded (system_run [StartShower 38 None True, Advance 1801]
        (initialize 38 45 20 600 1800 1000))
   \<and> safety_state (safety_monitor (safety_control_loop
        (system_run [StartShower 38 None True, Advance 1801]
          (initialize 38 45 20 600 1800 1000)))) = EMERGENCY
   \<and> door_timer_due (system_step (read_door_sensor (initialize 38 45 20 600 1800 1000))
        (Advance 600))
   \<and> emergency_stop_count (door_timeout_handler
        (system_step (read_door_sensor (initialize 38 45 20 600 1800 1000)) (Advance 600))) = 1
   \<and> emergency_stop_active (safety_monitor
        (safety_emergency_stop (initialize 38 45 20 600 1800 1000)))
   \<and> safety_state (safety_monitor (safety_control_loop
        (safety_emergency_stop (initialize 38 45 20 600 1800 1000)))) = EMERGENCY
   \<and> leak_sensor_active (safety_monitor
        (system_step (initialize 38 45 20 600 1800 1000) (SetLeakSensor True)))
   \<and> safety_state (safety_monitor (safety_control_loop
        (system_step (initialize 38 45 20 600 1800 1000) (SetLeakSensor True)))) = DANGER"
proof -
  let ?i = "initialize 38 45 20 600 1800 1000"
  let ?b = "system_step ?i (SetEmergencyButton True)"
  let ?t = "system_run [StartShower 38 None True, Advance 1801] ?i"
  let ?d = "system_step (read_door_sensor ?i) (Advance 600)"
  let ?e = "safety_emergency_stop ?i"
  let ?l = "system_step ?i (SetLeakSensor True)"
  have b: "emergency_button_pressed (safety_monitor ?b)" "on_emergency_stop (safety_monitor ?b)"
    "emergency_stop_count ?b = 0"
    by (simp_all add: initialize_monitor emergency_stop_count_def)
  have t: "duration_exceeded ?t" "\<not> leak_sensor_active (safety_monitor ?t)"
    by (simp_all add: system_run_def start_shower_def Let_def start_shower_session_eq
        initialize_monitor duration_exceeded_def)
  have d: "door_timer_due ?d" "door_state (safety_monitor ?d) = CLOSED"
    "on_emergency_stop (safety_monitor ?d)" "emergency_stop_count ?d = 0"
    by (simp_all add: read_door_sensor_monitor read_door_sensor_clock initialize_monitor
        door_timer_due_def emergency_stop_count_def)
  have e: "emergency_stop_active (safety_monitor ?e)"
    by (simp add: safety_emergency_stop_effect)
  have l: "leak_sensor_active (safety_monitor ?l)" "\<not> emergency_button_pressed (safety_monitor ?l)"
    "\<not> emergency_stop_active (safety_monitor ?l)" "\<not> duration_exceeded ?l"
    by (simp_all add: initialize_monitor duration_exceeded_def)
  have rb: "safety_state (safety_monitor (safety_control_loop ?b)) = EMERGENCY"
    "emergency_stop_count (safety_control_loop ?b) = 1"
    "emergency_stop_count (safety_control_loop (safety_control_loop ?b)) = 2"
    using emergency_stop_fires_on_every_triggering_iteration [of ?b] b by simp_all
  have rt: "safety_state (safety_monitor (safety_control_loop ?t)) = EMERGENCY"
    using emergency_stop_fires_on_every_triggering_iteration [of ?t] t by blast
  have rd: "emergency_stop_count (door_timeout_handler ?d) = 1"
    using emergency_stop_fires_on_every_triggering_iteration [of ?d] d by simp
  have re: "safety_state (safety_monitor (safety_control_loop ?e)) = EMERGENCY"
    using emergency_stop_fires_on_every_triggering_iteration [of ?e] e by blast
  have rl: "safety_state (safety_monitor (safety_control_loop ?l)) = DANGER"
    using emergency_stop_fires_on_every_triggering_iteration [of ?l] l by blast
  from b(1) rb t(1) rt d(1) rd e re l(1) rl show ?thesis by blast
qed

theorem emergency_stop_refires_while_in_emergency_counterexample:
  "safety_state (safety_monitor (safety_control_loop
        (system_step (initialize 38 45 20 600 1800 1000) (SetEmergencyButton True)))) = EMERGENCY
   \<and> emergency_stop_count (safety_control_loop
        (system_step (initialize 38 45 20 600 1800 1000) (SetEmergencyButton True))) = 1
   \<and> safety_state (safety_monitor (safety_control_loop (safety_control_loop
        (system_step (initialize 38 45 20 600 1800 1000) (SetEmergencyButton True))))) = EMERGENCY
   \<and> emergency_stop_count (safety_control_loop (safety_control_loop
        (system_step (initialize 38 45 20 600 1800 1000) (SetEmergencyButton True)))) = 2
   \<and> leak_detected (safety_monitor (safety_control_loop
        (system_step (initialize 38 45 20 600 1800 1000) (SetLeakSensor True))))
   \<and> safety_state (safety_monitor (safety_control_loop
        (system_step (initialize 38 45 20 600 1800 1000) (SetLeakSensor True)))) = DANGER
   \<and> emergency_stop_count (safety_control_loop
        (system_step (initialize 38 45 20 600 1800 1000) (SetLeakSensor True))) = 0"
proof -
  have "emergency_stop_count (system_step (initialize 38 45 20 600 1800 1000)
          (SetEmergencyButton True)) = 0"
    "emergency_stop_count (system_step (initialize 38 45 20 600 1800 1000)
          (SetLeakSensor True)) = 0"
    by (simp_all add: emergency_stop_count_def initialize_monitor)
  then show ?thesis
    by (simp add: safety_control_loop_state safety_control_loop_effect initialize_monitor
        duration_exceeded_def)
qed

subsection \<open>Unknown door state\<close>

text \<open>
  Claim C7, as amended. The monitor does not treat an unknown door state specially:
  \<^verbatim>\<open>start_shower_session\<close> arms the door timer whatever the door state is, also while it is
  UNKNOWN. What the door state decides is the effect of the timer's expiry: unless the door
  state is CLOSED at that moment (so in particular while it is still UNKNOWN) the expiry only
  finishes the timer and triggers no emergency stop. A sensor read never yields UNKNOWN: an
  inactive door sensor is read as CLOSED.
\<close>

theorem door_timer_is_armed_whatever_the_door_state:
  "door_timer (start_shower_session now m) = Some \<lparr>created_at = now, status = Pending\<rparr>
   \<and> door_state (start_shower_session now m) = door_state m
   \<and> (door_state (safety_monitor s) \<noteq> CLOSED \<longrightarrow>
        door_timeout_handler s =
          (if door_timer_due s then s\<lparr>safety_monitor := finish_door_timer (safety_monitor s)\<rparr>
           else s))
   \<and> door_state (safety_monitor (read_door_sensor s)) =
        (if door_sensor_active (safety_monitor s) then OPEN else CLOSED)"
  by (simp add: start_shower_session_eq door_timeout_handler_def read_door_sensor_monitor)

theorem door_timer_is_armed_whatever_the_door_state_witness:
  "door_state (safety_monitor (system_run [StartShower 38 None True, Advance 600]
       (initialize 38 45 20 600 1800 1000))) = UNKNOWN
   \<and> door_timer_due (system_run [StartShower 38 None True, Advance 600]
       (initialize 38 45 20 600 1800 1000))
   \<and> emergency_stop_active (safety_monitor (door_timeout_handler
       (system_run [StartShower 38 None True, Advance 600]
         (initialize 38 45 20 600 1800 1000)))) = False
   \<and> door_timer (safety_monitor (door_timeout_handler
       (system_run [StartShower 38 None True, Advance 600]
         (initialize 38 45 20 600 1800 1000)))) = Some \<lparr>created_at = 1000, status = Finished\<rparr>"
proof -
  let ?s = "system_run [StartShower 38 None True, Advance 600] (initialize 38 45 20 600 1800 1000)"
  have d: "door_state (safety_monitor ?s) = UNKNOWN"
    and t: "door_timer (safety_monitor ?s) = Some \<lparr>created_at = 1000, status = Pending\<rparr>"
    and a: "emergency_stop_active (safety_monitor ?s) = False"
    and due: "door_timer_due ?s"
    by (simp_all add: system_run_def start_shower_def Let_def start_shower_session_eq
        initialize_monitor door_timer_due_def)
  from d have "door_state (safety_monitor ?s) \<noteq> CLOSED" by simp
  with door_timer_is_armed_whatever_the_door_state [of _ _ ?s] due
  have h: "door_timeout_handler ?s = ?s\<lparr>safety_monitor := finish_door_timer (safety_monitor ?s)\<rparr>"
    by presburger
  have "emergency_stop_active (safety_monitor (door_timeout_handler ?s)) = False"
    by (simp only: h) (simp add: finish_door_timer_def a)
  moreover have "door_timer (safety_monitor (door_timeout_handler ?s)) =
      Some \<lparr>created_at = 1000, status = Finished\<rparr>"
    by (simp only: h) (simp add: finish_door_timer_def t)
  ultimately show ?thesis using d due by blast
qed

theorem door_timer_armed_on_unknown_door_counterexample:
  "door_state (safety_monitor (initialize 38 45 20 600 1800 1000)) = UNKNOWN
   \<and> door_state (safety_monitor (snd (start_shower 38 None True
        (initialize 38 45 20 600 1800 1000)))) = UNKNOWN
   \<and> door_timer (safety_monitor (snd (start_shower 38 None True
        (initialize 38 45 20 600 1800 1000)))) = Some \<lparr>created_at = 1000, status = Pending\<rparr>"
  by (simp add: start_shower_def Let_def start_shower_session_eq initialize_monitor)

subsection \<open>Starting a shower twice\<close>

text \<open>
  Claim C5, as amended. \<^verbatim>\<open>start_shower\<close> has no check for an active session and no
  \<^verbatim>\<open>SessionAlreadyActive\<close> error. Called in any state, with or without an active session, and
  with the audio playback starting normally, it returns without error and runs the whole start
  sequence: the water controller's \<^verbatim>\<open>start_flow\<close> is applied (valves opened, target set to the
  clamped temperature, \<^verbatim>\<open>on_flow_start\<close> invoked again when registered), the session start time
  is set to the current time, the door timer is replaced by a fresh one, and
  \<^verbatim>\<open>shower_active\<close> is set. The water flow is restarted even when the audio playback fails.
\<close>

theorem start_shower_restarts_an_active_session:
  "fst (start_shower t a True s) = None
   \<and> shower_active (snd (start_shower t a True s))
   \<and> water_controller (snd (start_shower t a ok s)) = start_flow (Some t) (water_controller s)
   \<and> valve_state (water_controller (snd (start_shower t a True s))) = VALVE_OPEN
   \<and> hot_valve_open (water_controller (snd (start_shower t a True s)))
   \<and> cold_valve_open (water_controller (snd (start_shower t a True s)))
   \<and> target_temperature (water_controller (snd (start_shower t a True s))) =
        max (min_temperature (water_controller s)) (min (max_temperature (water_controller s)) t)
   \<and> water_fired (water_controller (snd (start_shower t a True s))) =
        water_fired (water_controller s) @
          (if on_flow_start (water_controller s)
           then [FlowStart (max (min_temperature (water_controller s))
                             (min (max_temperature (water_controller s)) t))]
           else [])
   \<and> safety_monitor (snd (start_shower t a True s)) =
        start_shower_session (clock s) (safety_monitor s)
   \<and> shower_start_time (safety_monitor (snd (start_shower t a True s))) = Some (clock s)
   \<and> door_timer (safety_monitor (snd (start_shower t a True s))) =
        Some \<lparr>created_at = clock s, status = Pending\<rparr>"
proof -
  have w': "water_controller (snd (start_shower t a ok s)) = start_flow (Some t) (water_controller s)"
    by (simp add: start_shower_def Let_def split: option.splits)
  have w: "water_controller (snd (start_shower t a True s)) = start_flow (Some t) (water_controller s)"
    and m: "safety_monitor (snd (start_shower t a True s)) =
        start_shower_session (clock s) (safety_monitor s)"
    and r: "fst (start_shower t a True s) = None" "shower_active (snd (start_shower t a True s))"
    by (simp_all add: start_shower_def Let_def split: option.splits)
  have wf: "valve_state (start_flow (Some t) (water_controller s)) = VALVE_OPEN"
    "hot_valve_open (start_flow (Some t) (water_controller s))"
    "cold_valve_open (start_flow (Some t) (water_controller s))"
    "target_temperature (start_flow (Some t) (water_controller s)) =
        max (min_temperature (water_controller s)) (min (max_temperature (water_controller s)) t)"
    "water_fired (start_flow (Some t) (water_controller s)) =
        water_fired (water_controller s) @
          (if on_flow_start (water_controller s)
           then [FlowStart (max (min_temperature (water_controller s))
                             (min (max_temperature (water_controller s)) t))]
           else [])"
    by (simp_all add: start_flow_def open_valves_def fire_water_def Let_def)
  have mf: "shower_start_time (start_shower_session (clock s) (safety_monitor s)) = Some (clock s)"
    "door_timer (start_shower_session (clock s) (safety_monitor s)) =
        Some \<lparr>created_at = clock s, status = Pending\<rparr>"
    by (simp_all add: start_shower_session_eq)
  from r w' w m wf mf show ?thesis by (simp only: simp_thms)
qed

theorem start_shower_restarts_an_active_session_witness:
  "shower_active (system_run [StartShower 38 None True, Advance 100]
       (initialize 38 45 20 600 1800 1000))
   \<and> fst (start_shower 40 None True (system_run [StartShower 38 None True, Advance 100]
       (initialize 38 45 20 600 1800 1000))) = None
   \<and> shower_start_time (safety_monitor (snd (start_shower 40 None True
       (system_run [StartShower 38 None True, Advance 100]
         (initialize 38 45 20 600 1800 1000))))) = Some 1100"
proof -
  let ?s = "system_run [StartShower 38 None True, Advance 100] (initialize 38 45 20 600 1800 1000)"
  have a: "shower_active ?s" and c: "clock ?s = 1100"
    by (simp_all add: system_run_def start_shower_def initialize_monitor Let_def)
  have r: "fst (start_shower 40 None True ?s) = None"
    "shower_start_time (safety_monitor (snd (start_shower 40 None True ?s))) = Some (clock ?s)"
    using start_shower_restarts_an_active_session [of 40 None ?s] by blast+
  from a r(1) r(2) [unfolded c] show ?thesis by blast
qed

theorem second_start_shower_succeeds_counterexample:
  "shower_active (system_run [StartShower 38 None True, Advance 100]
          (initialize 38 45 20 600 1800 1000))
   \<and> fst (start_shower 40 None True
        (system_run [StartShower 38 None True, Advance 100]
          (initialize 38 45 20 600 1800 1000))) = None
   \<and> water_fired (water_controller (system_run [StartShower 38 None True, Advance 100]
          (initialize 38 45 20 600 1800 1000))) = [FlowStart 38]
   \<and> water_fired (water_controller (snd (start_shower 40 None True
        (system_run [StartShower 38 None True, Advance 100]
          (initialize 38 45 20 600 1800 1000))))) = [FlowStart 38, FlowStart 40]
   \<and> door_timer (safety_monitor (system_run [StartShower 38 None True, Advance 100]
          (initialize 38 45 20 600 1800 1000))) = Some \<lparr>created_at = 1000, status = Pending\<rparr>
   \<and> door_timer (safety_monitor (snd (start_shower 40 None True
        (system_run [StartShower 38 None True, Advance 100]
          (initialize 38 45 20 600 1800 1000))))) = Some \<lparr>created_at = 1100, status = Pending\<rparr>
   \<and> shower_start_time (safety_monitor (snd (start_shower 40 None True
        (system_run [StartShower 38 None True, Advance 100]
          (initialize 38 45 20 600 1800 1000))))) = Some 1100"
proof -
  let ?i = "initialize 38 45 20 600 1800 1000"
  let ?s = "system_run [StartShower 38 None True, Advance 100] ?i"
  have wi: "water_controller ?i = setup_water_handlers (WaterController_init 38 45 20)"
    by (simp add: initialize_def)
  have a: "shower_active ?s" and c: "clock ?s = 1100"
    and w: "water_controller ?s = start_flow (Some 38) (water_controller ?i)"
    and m: "safety_monitor ?s = start_shower_session 1000 (safety_monitor ?i)"
    by (simp_all add: system_run_def start_shower_def initialize_monitor(2) Let_def)
  have w2: "water_controller (snd (start_shower 40 None True ?s)) =
      start_flow (Some 40) (water_controller ?s)"
    and m2: "safety_monitor (snd (start_shower 40 None True ?s)) =
      start_shower_session (clock ?s) (safety_monitor ?s)"
    and r: "fst (start_shower 40 None True ?s) = None"
    by (simp_all add: start_shower_def Let_def)
  have f1: "water_fired (water_controller ?s) = [FlowStart 38]"
    by (simp add: w wi start_flow_def open_valves_def fire_water_def setup_water_handlers_def
        WaterController_init_def Let_def)
  have f2: "water_fired (water_controller (snd (start_shower 40 None True ?s))) =
      [FlowStart 38, FlowStart 40]"
    by (simp add: w2 w wi start_flow_def open_valves_def fire_water_def setup_water_handlers_def
        WaterController_init_def Let_def)
  have t1: "door_timer (safety_monitor ?s) = Some \<lparr>created_at = 1000, status = Pending\<rparr>"
    by (simp add: m start_shower_session_eq)
  have t2: "door_timer (safety_monitor (snd (start_shower 40 None True ?s))) =
      Some \<lparr>created_at = 1100, status = Pending\<rparr>"
    "shower_start_time (safety_monitor (snd (start_shower 40 None True ?s))) = Some 1100"
    by (simp_all add: m2 c start_shower_session_eq)
  from a r f1 f2 t1 t2 show ?thesis by blast
qed

subsection \<open>The emergency latch\<close>

lemma door_timeout_handler_monitor:
  "safety_monitor (door_timeout_handler s) =
     (if door_timer_due s
      then finish_door_timer
             (if door_state (safety_monitor s) = CLOSED
              then safety_monitor (safety_emergency_stop s) else safety_monitor s)
      else safety_monitor s)"
  by (simp add: door_timeout_handler_def Let_def)

lemma door_timeout_handler_clock: "clock (door_timeout_handler s) = clock s"
  by (simp add: door_timeout_handler_def Let_def safety_emergency_stop_clock)

lemma start_shower_monitor:
  "safety_monitor (snd (start_shower t a ok s)) = safety_monitor s
   \<or> safety_monitor (snd (start_shower t a ok s)) =
       start_shower_session (clock s) (safety_monitor s)"
  "a = None \<Longrightarrow> safety_monitor (snd (start_shower t a ok s)) =
       start_shower_session (clock s) (safety_monitor s)"
  by (simp_all add: start_shower_def Let_def split: option.splits)

lemma start_shower_clock: "clock (snd (start_shower t a ok s)) = clock s"
  by (simp add: start_shower_def Let_def split: option.splits)

lemma stop_shower_monitor: "safety_monitor (stop_shower s) = stop_shower_session (safety_monitor s)"
  by (simp add: stop_shower_def Let_def)

lemma stop_shower_clock: "clock (stop_shower s) = clock s"
  by (simp add: stop_shower_def Let_def)

lemma start_shower_keeps_latch:
  "emergency_stop_active (safety_monitor s) \<Longrightarrow>
   emergency_stop_active (safety_monitor (snd (start_shower t a ok s)))"
  using start_shower_monitor(1) [of t a ok s] by (auto simp add: start_shower_session_eq)

lemma system_step_keeps_latch:
  "emergency_stop_active (safety_monitor s) \<Longrightarrow>
   emergency_stop_active (safety_monitor (system_step s op))"
  by (cases op)
    (simp_all add: safety_control_loop_effect(1) door_timeout_handler_monitor
      finish_door_timer_def safety_emergency_stop_effect(1) start_shower_keeps_latch
      stop_shower_monitor monitor_eqs)

lemma system_run_keeps_latch:
  "emergency_stop_active (safety_monitor s) \<Longrightarrow>
   emergency_stop_active (safety_monitor (system_run ops s))"
  unfolding system_run_def
  by (induction ops arbitrary: s) (simp_all add: system_step_keeps_latch)

text \<open>
  Claim C4, as amended. The monitor has no clear-emergency operation. What is terminal is the
  latch \<^verbatim>\<open>emergency_stop_active\<close>: \<^verbatim>\<open>emergency_stop\<close> sets it, no operation of the running system
  resets it (time passing, the control loops, the door timer, \<^verbatim>\<open>start_shower\<close>, \<^verbatim>\<open>stop_shower\<close>,
  the API calls, sensor changes), and while it is set every iteration of the safety control
  loop ends with SafetyState EMERGENCY. The field \<^verbatim>\<open>safety_state\<close> itself is not terminal:
  \<^verbatim>\<open>stop_shower_session\<close> and \<^verbatim>\<open>start_shower_session\<close> set it to SAFE whatever it was, also
  when it was EMERGENCY, and it stays SAFE until the next iteration of the control loop.
\<close>

theorem emergency_latch_is_never_cleared:
  "emergency_stop_active (safety_monitor (safety_emergency_stop s))
   \<and> (emergency_stop_active (safety_monitor s) \<longrightarrow>
        emergency_stop_active (safety_monitor (system_run ops s)))
   \<and> (emergency_stop_active (safety_monitor s) \<longrightarrow>
        safety_state (safety_monitor (safety_control_loop s)) = EMERGENCY)
   \<and> emergency_stop_active (stop_shower_session m) = emergency_stop_active m
   \<and> safety_state (stop_shower_session m) = SAFE
   \<and> safety_state (start_shower_session now m) = SAFE
   \<and> safety_state (safety_monitor (stop_shower s)) = SAFE"
proof -
  have "emergency_stop_active (safety_monitor s) \<longrightarrow>
        safety_state (safety_monitor (safety_control_loop s)) = EMERGENCY"
    using safety_control_loop_state(1) [of s] by (simp add: safety_control_loop_effect(1))
  then show ?thesis
    using system_run_keeps_latch [of s ops]
    by (simp add: safety_emergency_stop_effect(1) stop_shower_monitor monitor_eqs)
qed

theorem emergency_latch_is_never_cleared_witness:
  "emergency_stop_active (safety_monitor
      (safety_emergency_stop (initialize 38 45 20 600 1800 1000)))
   \<and> emergency_stop_active (safety_monitor
        (system_run [StopShower, Advance 5, StartShower 38 None True, SafetyControlLoop, StopShower]
          (safety_emergency_stop (initialize 38 45 20 600 1800 1000))))
   \<and> safety_state (safety_monitor (safety_control_loop
        (safety_emergency_stop (initialize 38 45 20 600 1800 1000)))) = EMERGENCY"
proof -
  let ?e = "safety_emergency_stop (initialize 38 45 20 600 1800 1000)"
  have a: "emergency_stop_active (safety_monitor ?e)"
    using emergency_latch_is_never_cleared [of "initialize 38 45 20 600 1800 1000"] by blast
  from a emergency_latch_is_never_cleared
    [of ?e "[StopShower, Advance 5, StartShower 38 None True, SafetyControlLoop, StopShower]"]
  show ?thesis by blast
qed

theorem stop_shower_session_overwrites_emergency_counterexample:
  "safety_state (safety_monitor (safety_control_loop
      (system_step (initialize 38 45 20 600 1800 1000) (SetEmergencyButton True)))) = EMERGENCY
   \<and> safety_state (safety_monitor (stop_shower (safety_control_loop
      (system_step (initialize 38 45 20 600 1800 1000) (SetEmergencyButton True))))) = SAFE
   \<and> safety_state (stop_shower_session (safety_monitor (safety_control_loop
      (system_step (initialize 38 45 20 600 1800 1000) (SetEmergencyButton True))))) = SAFE"
  by (simp add: safety_control_loop_state safety_control_loop_effect stop_shower_monitor
      stop_shower_session_eq)

subsection \<open>The door timer\<close>

lemma check_stage_clocks:
  "clock (check_shower_duration s) = clock s"
  "clock (check_leaks s) = clock s"
  "clock (check_door_state s) = clock s"
  by (simp_all add: check_shower_duration_def check_leaks_def check_door_state_def
      safety_emergency_stop_clock Let_def)

lemma door_timer_invariant_iff:
  "door_timer_invariant s =
     (on_door_open (safety_monitor s) \<and> on_door_close (safety_monitor s)
      \<and> (door_state (safety_monitor s) = CLOSED \<longrightarrow> last_door_close_time (safety_monitor s) \<noteq> None)
      \<and> (\<forall>c. last_door_close_time (safety_monitor s) = Some c \<longrightarrow>
             c \<le> clock s
             \<and> (door_state (safety_monitor s) = CLOSED \<longrightarrow>
                  (\<forall>t. door_timer (safety_monitor s) = Some t \<longrightarrow> c \<le> created_at t))))"
  by (auto simp add: door_timer_invariant_def split: option.splits)

lemma invariant_read_door_sensor:
  "door_timer_invariant s \<Longrightarrow> door_timer_invariant (read_door_sensor s)"
  by (auto simp add: door_timer_invariant_iff read_door_sensor_monitor read_door_sensor_clock)

lemma invariant_read_leak_sensor:
  "door_timer_invariant s \<Longrightarrow> door_timer_invariant (read_leak_sensor s)"
  by (auto simp add: door_timer_invariant_iff read_leak_sensor_monitor read_leak_sensor_clock)

lemma invariant_safety_emergency_stop:
  "door_timer_invariant s \<Longrightarrow> door_timer_invariant (safety_emergency_stop s)"
  by (auto simp add: door_timer_invariant_iff safety_emergency_stop_monitor
      safety_emergency_stop_clock)

lemma invariant_read_emergency_button:
  "door_timer_invariant s \<Longrightarrow> door_timer_invariant (read_emergency_button s)"
  by (simp add: read_emergency_button_def invariant_safety_emergency_stop)

lemma invariant_check_shower_duration:
  "door_timer_invariant s \<Longrightarrow> door_timer_invariant (check_shower_duration s)"
  by (simp add: check_shower_duration_def invariant_safety_emergency_stop)

lemma invariant_check_leaks:
  "door_timer_invariant s \<Longrightarrow> door_timer_invariant (check_leaks s)"
  by (auto simp add: door_timer_invariant_iff check_leaks_monitor check_stage_clocks)

lemma invariant_check_door_state:
  "door_timer_invariant s \<Longrightarrow> door_timer_invariant (check_door_state s)"
  by (auto simp add: door_timer_invariant_iff check_door_state_monitor check_stage_clocks)

lemma update_safety_state_door:
  "door_state (update_safety_state m) = door_state m"
  "door_timer (update_safety_state m) = door_timer m"
  "last_door_close_time (update_safety_state m) = last_door_close_time m"
  "on_door_open (update_safety_state m) = on_door_open m"
  "on_door_close (update_safety_state m) = on_door_close m"
  by (simp_all add: update_safety_state_def)

lemma invariant_safety_control_loop:
  assumes "door_timer_invariant s"
  shows "door_timer_invariant (safety_control_loop s)"
proof -
  let ?u = "check_safety_conditions (safety_read_sensors s)"
  have "door_timer_invariant ?u"
    using assms
    by (simp add: check_safety_conditions_def safety_read_sensors_def invariant_read_door_sensor
        invariant_read_leak_sensor invariant_read_emergency_button
        invariant_check_shower_duration invariant_check_leaks invariant_check_door_state)
  moreover have "door_timer_invariant (safety_control_loop s) = door_timer_invariant ?u"
    by (simp add: door_timer_invariant_iff safety_control_loop_monitor safety_control_loop_clock
        update_safety_state_door check_safety_conditions_clock safety_read_sensors_clock)
  ultimately show ?thesis by simp
qed

lemma invariant_door_timeout_handler:
  "door_timer_invariant s \<Longrightarrow> door_timer_invariant (door_timeout_handler s)"
  by (auto simp add: door_timer_invariant_iff door_timeout_handler_monitor
      door_timeout_handler_clock finish_door_timer_def safety_emergency_stop_monitor)

lemma invariant_start_shower:
  "door_timer_invariant s \<Longrightarrow> door_timer_invariant (snd (start_shower t a ok s))"
  using start_shower_monitor(1) [of t a ok s]
  by (auto simp add: door_timer_invariant_iff start_shower_clock start_shower_session_eq)

lemma invariant_stop_shower:
  "door_timer_invariant s \<Longrightarrow> door_timer_invariant (stop_shower s)"
  by (auto simp add: door_timer_invariant_iff stop_shower_monitor stop_shower_clock
      stop_shower_session_eq)

lemma invariant_system_step:
  assumes "door_timer_invariant s"
  shows "door_timer_invariant (system_step s op)"
proof (cases op)
  case (Advance d)
  with assms show ?thesis by (auto simp add: door_timer_invariant_iff)
next
  case SafetyControlLoop
  with assms show ?thesis by (simp add: invariant_safety_control_loop)
next
  case WaterControlLoop
  with assms show ?thesis by (simp add: door_timer_invariant_iff)
next
  case DoorTimeout
  with assms show ?thesis by (simp add: invariant_door_timeout_handler)
next
  case (StartShower t a ok)
  with assms show ?thesis by (simp add: invariant_start_shower)
next
  case StopShower
  with assms show ?thesis by (simp add: invariant_stop_shower)
next
  case ApiEmergencyStop
  with assms show ?thesis by (simp add: invariant_safety_emergency_stop)
next
  case (ApiSetTemperature t)
  with assms show ?thesis by (simp add: door_timer_invariant_iff)
next
  case (SetDoorSensor b)
  with assms show ?thesis by (simp add: door_timer_invariant_iff)
next
  case (SetLeakSensor b)
  with assms show ?thesis by (simp add: door_timer_invariant_iff)
next
  case (SetEmergencyButton b)
  with assms show ?thesis by (simp add: door_timer_invariant_iff)
qed

lemma invariant_system_run:
  "door_timer_invariant s \<Longrightarrow> door_timer_invariant (system_run ops s)"
  unfolding system_run_def
  by (induction ops arbitrary: s) (simp_all add: invariant_system_step)

lemma invariant_initialize: "door_timer_invariant (initialize d mx mn timeout max_duration t0)"
  by (simp add: door_timer_invariant_iff initialize_monitor)

lemma door_timer_never_early:
  assumes "door_timer_invariant s" "door_timer_due s" "door_state (safety_monitor s) = CLOSED"
  shows "\<exists>c. last_door_close_time (safety_monitor s) = Some c
            \<and> c + door_timeout (safety_monitor s) \<le> clock s"
  using assms
  by (auto simp add: door_timer_invariant_iff door_timer_due_def split: option.splits)


lemma door_timeout_handler_not_due_again: "\<not> door_timer_due (door_timeout_handler s)"
  by (auto simp add: door_timer_due_def door_timeout_handler_monitor door_timeout_handler_clock
      finish_door_timer_def safety_emergency_stop_monitor split: option.splits)

lemmas safety_loop_evaluation =
  safety_control_loop_monitor safety_control_loop_clock
  check_safety_conditions_def safety_read_sensors_def
  check_door_state_monitor check_leaks_monitor check_shower_duration_monitor check_stage_clocks
  read_emergency_button_monitor read_emergency_button_clock
  read_leak_sensor_monitor read_leak_sensor_clock
  read_door_sensor_monitor read_door_sensor_clock
  safety_emergency_stop_monitor safety_emergency_stop_clock
  duration_exceeded_def session_running_def update_safety_state_def task_done_def

text \<open>
  Claim C6, as amended. With the coordinator's door handlers registered, and whether or not a
  session is active: a sensor read that sees the door go to open invokes \<^verbatim>\<open>on_door_open\<close> and
  replaces the door timer by a fresh full-duration one (the running timer is reset, not just
  cancelled); a read that sees the door go to closed invokes \<^verbatim>\<open>on_door_close\<close> and likewise
  starts a fresh full-duration timer; a read without a transition changes nothing. While a
  session is active and the door is open, every iteration restarts the timer again. In every
  state the running system reaches, a door timer that is due while the door is CLOSED was
  started at the most recent closure or later, so it never expires earlier than
  \<^verbatim>\<open>door_timeout\<close> seconds after that closure; and a timer that has expired is not due again.
\<close>

theorem door_edges_restart_the_door_timer:
  "(door_sensor_active (safety_monitor s) \<and> door_state (safety_monitor s) \<noteq> OPEN
      \<and> on_door_open (safety_monitor s) \<longrightarrow>
      safety_monitor (read_door_sensor s) =
        (safety_monitor s)\<lparr>door_state := OPEN, last_door_open_time := Some (clock s),
          safety_fired := safety_fired (safety_monitor s) @ [DoorOpen],
          door_timer := Some \<lparr>created_at = clock s, status = Pending\<rparr>\<rparr>)
   \<and> (\<not> door_sensor_active (safety_monitor s) \<and> door_state (safety_monitor s) \<noteq> CLOSED
      \<and> on_door_close (safety_monitor s) \<longrightarrow>
      safety_monitor (read_door_sensor s) =
        (safety_monitor s)\<lparr>door_state := CLOSED, last_door_close_time := Some (clock s),
          safety_fired := safety_fired (safety_monitor s) @ [DoorClose],
          door_timer := Some \<lparr>created_at = clock s, status = Pending\<rparr>\<rparr>)
   \<and> (door_state (safety_monitor s) = (if door_sensor_active (safety_monitor s) then OPEN else CLOSED)
      \<longrightarrow> safety_monitor (read_door_sensor s) = safety_monitor s)
   \<and> (door_state (safety_monitor s) = OPEN \<and> session_running (safety_monitor s) \<longrightarrow>
      door_timer (safety_monitor (check_door_state s)) =
        Some \<lparr>created_at = clock s, status = Pending\<rparr>)
   \<and> (door_timer_due (system_run ops (initialize d mx mn timeout max_duration t0))
      \<and> door_state (safety_monitor
            (system_run ops (initialize d mx mn timeout max_duration t0))) = CLOSED \<longrightarrow>
      (\<exists>c. last_door_close_time (safety_monitor
                (system_run ops (initialize d mx mn timeout max_duration t0))) = Some c
          \<and> c + door_timeout (safety_monitor
                (system_run ops (initialize d mx mn timeout max_duration t0)))
              \<le> clock (system_run ops (initialize d mx mn timeout max_duration t0))))
   \<and> \<not> door_timer_due (door_timeout_handler s)"
proof -
  have inv: "door_timer_invariant (system_run ops (initialize d mx mn timeout max_duration t0))"
    by (rule invariant_system_run [OF invariant_initialize])
  have edges: "door_sensor_active (safety_monitor s) \<and> door_state (safety_monitor s) \<noteq> OPEN
      \<and> on_door_open (safety_monitor s) \<longrightarrow>
      safety_monitor (read_door_sensor s) =
        (safety_monitor s)\<lparr>door_state := OPEN, last_door_open_time := Some (clock s),
          safety_fired := safety_fired (safety_monitor s) @ [DoorOpen],
          door_timer := Some \<lparr>created_at = clock s, status = Pending\<rparr>\<rparr>"
    "\<not> door_sensor_active (safety_monitor s) \<and> door_state (safety_monitor s) \<noteq> CLOSED
      \<and> on_door_close (safety_monitor s) \<longrightarrow>
      safety_monitor (read_door_sensor s) =
        (safety_monitor s)\<lparr>door_state := CLOSED, last_door_close_time := Some (clock s),
          safety_fired := safety_fired (safety_monitor s) @ [DoorClose],
          door_timer := Some \<lparr>created_at = clock s, status = Pending\<rparr>\<rparr>"
    "door_state (safety_monitor s) = (if door_sensor_active (safety_monitor s) then OPEN else CLOSED)
      \<longrightarrow> safety_monitor (read_door_sensor s) = safety_monitor s"
    "door_state (safety_monitor s) = OPEN \<and> session_running (safety_monitor s) \<longrightarrow>
      door_timer (safety_monitor (check_door_state s)) =
        Some \<lparr>created_at = clock s, status = Pending\<rparr>"
    by (simp_all add: read_door_sensor_monitor check_door_state_monitor)
  from edges door_timer_never_early [OF inv] door_timeout_handler_not_due_again [of s]
  show ?thesis by blast
qed

theorem door_edges_restart_the_door_timer_witness:
  "door_state (safety_monitor (initialize 38 45 20 600 1800 1000)) \<noteq> CLOSED
   \<and> door_timer (safety_monitor (read_door_sensor (initialize 38 45 20 600 1800 1000))) =
       Some \<lparr>created_at = 1000, status = Pending\<rparr>
   \<and> door_sensor_active (safety_monitor
        (system_step (initialize 38 45 20 600 1800 1000) (SetDoorSensor True)))
   \<and> safety_fired (safety_monitor (read_door_sensor
        (system_step (initialize 38 45 20 600 1800 1000) (SetDoorSensor True)))) = [DoorOpen]
   \<and> door_state (safety_monitor (read_door_sensor (initialize 38 45 20 600 1800 1000))) = CLOSED
   \<and> safety_monitor (read_door_sensor (read_door_sensor (initialize 38 45 20 600 1800 1000))) =
       safety_monitor (read_door_sensor (initialize 38 45 20 600 1800 1000))
   \<and> session_running (safety_monitor (system_run
        [SetDoorSensor True, SafetyControlLoop, StartShower 38 None True, Advance 5]
        (initialize 38 45 20 600 1800 1000)))
   \<and> door_timer (safety_monitor (check_door_state (system_run
        [SetDoorSensor True, SafetyControlLoop, StartShower 38 None True, Advance 5]
        (initialize 38 45 20 600 1800 1000)))) = Some \<lparr>created_at = 1005, status = Pending\<rparr>
   \<and> door_timer_due (system_run [SafetyControlLoop, Advance 600]
        (initialize 38 45 20 600 1800 1000))
   \<and> door_state (safety_monitor (system_run [SafetyControlLoop, Advance 600]
        (initialize 38 45 20 600 1800 1000))) = CLOSED
   \<and> (\<exists>c. last_door_close_time (safety_monitor (system_run [SafetyControlLoop, Advance 600]
              (initialize 38 45 20 600 1800 1000))) = Some c
          \<and> c + 600 \<le> (1600::real))"
proof -
  let ?i = "initialize 38 45 20 600 1800 1000"
  let ?o = "system_step ?i (SetDoorSensor True)"
  let ?c = "read_door_sensor ?i"
  let ?q = "system_run [SetDoorSensor True, SafetyControlLoop, StartShower 38 None True, Advance 5] ?i"
  let ?r = "system_run [SafetyControlLoop, Advance 600] ?i"
  have i: "\<not> door_sensor_active (safety_monitor ?i)" "door_state (safety_monitor ?i) \<noteq> CLOSED"
    "on_door_close (safety_monitor ?i)" "clock ?i = 1000"
    by (simp_all add: initialize_monitor)
  have t: "door_timer (safety_monitor ?c) = Some \<lparr>created_at = 1000, status = Pending\<rparr>"
    using door_edges_restart_the_door_timer [of ?i] i by simp
  have o: "door_sensor_active (safety_monitor ?o)" "door_state (safety_monitor ?o) \<noteq> OPEN"
    "on_door_open (safety_monitor ?o)" "safety_fired (safety_monitor ?o) = []"
    by (simp_all add: initialize_monitor)
  have ro: "safety_fired (safety_monitor (read_door_sensor ?o)) = [DoorOpen]"
    using door_edges_restart_the_door_timer [of ?o] o by simp
  have c: "door_state (safety_monitor ?c) = CLOSED" "\<not> door_sensor_active (safety_monitor ?c)"
    by (simp_all add: read_door_sensor_monitor initialize_monitor)
  have rc: "safety_monitor (read_door_sensor ?c) = safety_monitor ?c"
    using door_edges_restart_the_door_timer [of ?c] c by simp
  have q: "door_state (safety_monitor ?q) = OPEN" "session_running (safety_monitor ?q)"
    "clock ?q = 1005"
    by (simp_all add: system_run_def safety_loop_evaluation start_shower_monitor(2)
        start_shower_clock start_shower_session_eq initialize_monitor)
  have rq: "door_timer (safety_monitor (check_door_state ?q)) =
      Some \<lparr>created_at = 1005, status = Pending\<rparr>"
    using door_edges_restart_the_door_timer [of ?q] q by simp
  have r: "door_timer_due ?r" "door_state (safety_monitor ?r) = CLOSED"
    and k: "clock ?r = 1600" "door_timeout (safety_monitor ?r) = 600"
    by (simp_all add: system_run_def door_timer_due_def safety_loop_evaluation initialize_monitor)
  have "\<exists>c. last_door_close_time (safety_monitor ?r) = Some c
          \<and> c + door_timeout (safety_monitor ?r) \<le> clock ?r"
    using door_edges_restart_the_door_timer
      [of _ "[SafetyControlLoop, Advance 600]" 38 45 20 600 1800 1000] r
    by blast
  with k have "\<exists>c. last_door_close_time (safety_monitor ?r) = Some c \<and> c + 600 \<le> (1600::real)"
    by simp
  with i(2) t o(1) ro c(1) rc q(2) rq r show ?thesis by blast
qed

theorem door_timer_started_without_session_counterexample:
  "\<not> shower_active (initialize 38 45 20 600 1800 1000)
   \<and> shower_start_time (safety_monitor (initialize 38 45 20 600 1800 1000)) = None
   \<and> door_timer (safety_monitor (safety_control_loop (initialize 38 45 20 600 1800 1000))) =
       Some \<lparr>created_at = 1000, status = Pending\<rparr>
   \<and> shower_start_time (safety_monitor
        (safety_control_loop (initialize 38 45 20 600 1800 1000))) = None
   \<and> door_state (safety_monitor (system_run
        [StartShower 38 None True, SafetyControlLoop, SetDoorSensor True, Advance 10]
        (initialize 38 45 20 600 1800 1000))) = CLOSED
   \<and> door_state (safety_monitor (system_run
        [StartShower 38 None True, SafetyControlLoop, SetDoorSensor True, Advance 10,
         SafetyControlLoop]
        (initialize 38 45 20 600 1800 1000))) = OPEN
   \<and> door_timer (safety_monitor (system_run
        [StartShower 38 None True, SafetyControlLoop, SetDoorSensor True, Advance 10,
         SafetyControlLoop]
        (initialize 38 45 20 600 1800 1000))) = Some \<lparr>created_at = 1010, status = Pending\<rparr>"
proof -
  let ?i = "initialize 38 45 20 600 1800 1000"
  have 1: "\<not> shower_active ?i" by (simp add: initialize_def)
  have 2: "shower_start_time (safety_monitor ?i) = None" by (simp add: initialize_monitor)
  have 3: "door_timer (safety_monitor (safety_control_loop ?i)) =
       Some \<lparr>created_at = 1000, status = Pending\<rparr>"
    "shower_start_time (safety_monitor (safety_control_loop ?i)) = None"
    by (simp_all add: safety_loop_evaluation initialize_monitor)
  have 4: "door_state (safety_monitor (system_run
        [StartShower 38 None True, SafetyControlLoop, SetDoorSensor True, Advance 10] ?i)) = CLOSED"
    by (simp add: system_run_def safety_loop_evaluation start_shower_monitor(2) start_shower_clock
        start_shower_session_eq initialize_monitor)
  have 5: "door_state (safety_monitor (system_run
        [StartShower 38 None True, SafetyControlLoop, SetDoorSensor True, Advance 10,
         SafetyControlLoop] ?i)) = OPEN"
    "door_timer (safety_monitor (system_run
        [StartShower 38 None True, SafetyControlLoop, SetDoorSensor True, Advance 10,
         SafetyControlLoop] ?i)) = Some \<lparr>created_at = 1010, status = Pending\<rparr>"
    by (simp_all add: system_run_def safety_loop_evaluation start_shower_monitor(2)
        start_shower_clock start_shower_session_eq initialize_monitor)
  from 1 2 3 4 5 show ?thesis by blast
qed

end
